theory Spec2Isabelle
  imports Complex_Main "HOL-Library.Word" "HOL-Library.Signed_Division"
begin

section \<open>Data model of gumv8platform.cpp\<close>

text \<open>
  Objects that the platform only passes around (the isolate, the scheduler, the buffer
  allocator, compiled bundles, tasks, timer sources) are handles: the address of the
  object as a natural number. A pointer that the code compares with NULL or nullptr is an
  \<open>option\<close>, with \<open>None\<close> for the null pointer.
\<close>

type_synonym Isolate = nat
type_synonym GumScriptScheduler = nat
type_synonym ArrayBufferAllocator = nat
type_synonym GumV8Bundle = nat
type_synonym Task = nat
type_synonym IdleTask = nat
type_synonym GSourceId = nat
type_synonym gint64 = "64 word"
type_synonym guint = "32 word"

text \<open>The hint argument of background dispatch (an enumeration of the engine).\<close>

datatype ExpectedRuntime = kShortRunningTask | kLongRunningTask

text \<open>
  The four embedded module tables. Their contents are generated headers; the platform only
  hands them to the bundle compiler, so a table is represented by its name.
\<close>

datatype module_table =
  gumjs_runtime_modules | gumjs_debug_modules | gumjs_objc_modules | gumjs_java_modules

text \<open>
  The class GumV8Platform. Its declaration is in gumv8platform.h; the fields are those the
  constructor initialises and the methods use. \<open>runtime_bundle\<close> and \<open>debug_bundle\<close>
  are not initialised by the initialiser list: they are \<open>None\<close> until InitRuntime
  assigns them.
\<close>

record GumV8Platform =
  disposing :: bool
  objc_bundle :: "GumV8Bundle option"
  java_bundle :: "GumV8Bundle option"
  scheduler :: GumScriptScheduler
  start_time :: gint64
  array_buffer_allocator :: ArrayBufferAllocator
  isolate :: Isolate
  runtime_bundle :: "GumV8Bundle option"
  debug_bundle :: "GumV8Bundle option"

text \<open>
  The class template GumV8TaskRequest. The platform pointer is represented by the platform
  it points to; the handlers read only its \<open>start_time\<close>, which never changes after
  construction. The task pointer is owned: the destructor deletes the task.
\<close>

record GumV8TaskRequest =
  req_platform :: GumV8Platform
  req_isolate :: "Isolate option"
  req_task :: nat

text \<open>
  A job of the script scheduler is a function pointer with its data argument; the two
  functions the platform registers are HandleTaskRequest and HandleIdleTaskRequest. The
  callback of a timer source is HandleDelayedTaskRequest with its request.
\<close>

datatype job =
  Job_HandleTaskRequest GumV8TaskRequest
| Job_HandleIdleTaskRequest GumV8TaskRequest

datatype source_callback = Callback_HandleDelayedTaskRequest GumV8TaskRequest

datatype GMainContext = js_context GumScriptScheduler

record GSource =
  source_interval :: guint
  source_priority :: int
  source_callback :: "source_callback option"
  source_context :: "GMainContext option"
  source_refs :: nat

text \<open>The scoped guards of the engine: Locker, Isolate::Scope, HandleScope, Context::Scope.\<close>

datatype scope = Locker | Isolate_Scope | HandleScope | Context_Scope

text \<open>
  The calls into the engine and the host whose effect lies outside the platform are
  recorded, in program order, as events.
\<close>

datatype event =
  Gum_script_scheduler_new GumScriptScheduler
| New_GumArrayBufferAllocator ArrayBufferAllocator
| V8_InitializePlatform
| V8_Initialize
| Isolate_New ArrayBufferAllocator Isolate
| SetFatalErrorHandler Isolate
| Enter scope Isolate
| Leave scope Isolate
| Context_New Isolate
| Gum_v8_bundle_new Isolate module_table GumV8Bundle
| Gum_v8_bundle_free "GumV8Bundle option"
| Store_disposing bool
| Isolate_Dispose Isolate
| V8_Dispose
| V8_ShutdownPlatform
| G_object_unref GumScriptScheduler
| Delete_allocator ArrayBufferAllocator
| Task_Run Task
| IdleTask_Run IdleTask real
| Delete_task nat
| Delete_request GumV8TaskRequest

text \<open>
  The world around the platform: the host's monotonic clock (microseconds, gint64), the
  next free address, the events so far, the two job queues of the script scheduler and the
  timer sources of the event loop.
\<close>

record world =
  clock :: gint64
  next_handle :: nat
  trace :: "event list"
  thread_pool :: "(GumScriptScheduler \<times> job) list"
  js_thread :: "(GumScriptScheduler \<times> int \<times> job) list"
  sources :: "GSourceId \<rightharpoonup> GSource"

datatype fault = Assertion_failed | Undefined_behaviour

definition emit :: "event \<Rightarrow> world \<Rightarrow> world" where
  "emit e w = w\<lparr>trace := trace w @ [e]\<rparr>"

definition fresh_handle :: "world \<Rightarrow> nat \<times> world" where
  "fresh_handle w = (next_handle w, w\<lparr>next_handle := Suc (next_handle w)\<rparr>)"

definition G_PRIORITY_DEFAULT :: int where
  "G_PRIORITY_DEFAULT = 0"

section \<open>The collaborators\<close>

text \<open>
  Modelled from the spec: gum_v8_bundle_new and gum_v8_bundle_free (gumv8bundle.cpp) are
  called here and defined elsewhere. compile(vm, module table) yields a Bundle handle: a
  new object at a fresh address, never null. Destroying a bundle is recorded with the
  pointer it is given.
\<close>

definition gum_v8_bundle_new :: "Isolate \<Rightarrow> module_table \<Rightarrow> world \<Rightarrow> GumV8Bundle \<times> world" where
  "gum_v8_bundle_new isol modules w =
     (let (b, w1) = fresh_handle w in (b, emit (Gum_v8_bundle_new isol modules b) w1))"

definition gum_v8_bundle_free :: "GumV8Bundle option \<Rightarrow> world \<Rightarrow> world" where
  "gum_v8_bundle_free b w = emit (Gum_v8_bundle_free b) w"

text \<open>
  Modelled from the spec: the host scheduler (gumscriptscheduler.c) offers
  submit-to-pool(function, argument), submit-to-script-thread(priority, function,
  argument) and the event-loop handle of the script thread. A submission appends the job
  to the queue of its executor.
\<close>

definition gum_script_scheduler_new :: "world \<Rightarrow> GumScriptScheduler \<times> world" where
  "gum_script_scheduler_new w =
     (let (s, w1) = fresh_handle w in (s, emit (Gum_script_scheduler_new s) w1))"

definition gum_script_scheduler_push_job_on_thread_pool ::
  "GumScriptScheduler \<Rightarrow> job \<Rightarrow> world \<Rightarrow> world" where
  "gum_script_scheduler_push_job_on_thread_pool s j w =
     w\<lparr>thread_pool := thread_pool w @ [(s, j)]\<rparr>"

definition gum_script_scheduler_push_job_on_js_thread ::
  "GumScriptScheduler \<Rightarrow> int \<Rightarrow> job \<Rightarrow> world \<Rightarrow> world" where
  "gum_script_scheduler_push_job_on_js_thread s prio j w =
     w\<lparr>js_thread := js_thread w @ [(s, prio, j)]\<rparr>"

definition gum_script_scheduler_get_js_context :: "GumScriptScheduler \<Rightarrow> GMainContext" where
  "gum_script_scheduler_get_js_context s = js_context s"

text \<open>The host clock: g_get_monotonic_time reads the current microsecond count.\<close>

definition g_get_monotonic_time :: "world \<Rightarrow> gint64" where
  "g_get_monotonic_time w = clock w"

text \<open>
  The timer sources of the host's event loop, as its documentation describes them: a new
  source holds one reference; attaching it to a context adds the context's reference;
  dropping the last reference frees the source. Setters on a source that does not exist
  change nothing.
\<close>

definition g_timeout_source_new :: "guint \<Rightarrow> world \<Rightarrow> GSourceId \<times> world" where
  "g_timeout_source_new iv w =
     (let (s, w1) = fresh_handle w
      in (s, w1\<lparr>sources := (sources w1)(s \<mapsto>
            \<lparr>source_interval = iv, source_priority = G_PRIORITY_DEFAULT,
             source_callback = None, source_context = None, source_refs = 1\<rparr>)\<rparr>))"

definition update_source :: "GSourceId \<Rightarrow> (GSource \<Rightarrow> GSource) \<Rightarrow> world \<Rightarrow> world" where
  "update_source s f w =
     (case sources w s of
        None \<Rightarrow> w
      | Some src \<Rightarrow> w\<lparr>sources := (sources w)(s \<mapsto> f src)\<rparr>)"

definition g_source_set_priority :: "GSourceId \<Rightarrow> int \<Rightarrow> world \<Rightarrow> world" where
  "g_source_set_priority s prio w = update_source s (\<lambda>src. src\<lparr>source_priority := prio\<rparr>) w"

definition g_source_set_callback :: "GSourceId \<Rightarrow> source_callback \<Rightarrow> world \<Rightarrow> world" where
  "g_source_set_callback s cb w = update_source s (\<lambda>src. src\<lparr>source_callback := Some cb\<rparr>) w"

definition g_source_attach :: "GSourceId \<Rightarrow> GMainContext \<Rightarrow> world \<Rightarrow> world" where
  "g_source_attach s ctx w =
     update_source s (\<lambda>src. src\<lparr>source_context := Some ctx, source_refs := Suc (source_refs src)\<rparr>) w"

definition g_source_unref :: "GSourceId \<Rightarrow> world \<Rightarrow> world" where
  "g_source_unref s w =
     (case sources w s of
        None \<Rightarrow> w
      | Some src \<Rightarrow>
          if source_refs src \<le> 1 then w\<lparr>sources := (sources w)(s := None)\<rparr>
          else w\<lparr>sources := (sources w)(s \<mapsto> src\<lparr>source_refs := source_refs src - 1\<rparr>)\<rparr>)"

definition g_source_destroy :: "GSourceId \<Rightarrow> world \<Rightarrow> world" where
  "g_source_destroy s w =
     (case sources w s of
        None \<Rightarrow> w
      | Some src \<Rightarrow>
          (case source_context src of
             None \<Rightarrow> w
           | Some ctx \<Rightarrow> g_source_unref s (update_source s (\<lambda>x. x\<lparr>source_context := None\<rparr>) w)))"

text \<open>
  Doubles are the real numbers they denote (finite values only). The result of each
  double operation is the exact result rounded to a double; the rounding \<open>fl\<close> of the
  machine is a parameter of the functions that compute with doubles. What is known of it:
  it is monotone, it keeps zero, and it keeps what is already rounded.
\<close>

definition rounding :: "(real \<Rightarrow> real) \<Rightarrow> bool" where
  "rounding fl = (mono fl \<and> fl 0 = 0 \<and> (\<forall>x. fl (fl x) = fl x))"

text \<open>
  The conversion of a double to guint at the call of g_timeout_source_new drops the
  fraction; it is defined only when the result fits 32 unsigned bits.
\<close>

definition guint_of_double :: "real \<Rightarrow> guint option" where
  "guint_of_double x =
     (if - 1 < x \<and> x < 2 ^ 32
      then Some (word_of_int (if 0 \<le> x then \<lfloor>x\<rfloor> else \<lceil>x\<rceil>))
      else None)"

section \<open>The platform\<close>

subsection \<open>Construction\<close>

definition InitRuntime :: "GumV8Platform \<Rightarrow> world \<Rightarrow> GumV8Platform \<times> world" where
  "InitRuntime p w =
     (let isol = isolate p;
          w1 = emit (Enter Locker isol) w;
          w2 = emit (Enter Isolate_Scope isol) w1;
          w3 = emit (Enter HandleScope isol) w2;
          w4 = emit (Context_New isol) w3;
          w5 = emit (Enter Context_Scope isol) w4;
          (rb, w6) = gum_v8_bundle_new isol gumjs_runtime_modules w5;
          p1 = p\<lparr>runtime_bundle := Some rb\<rparr>;
          (db, w7) = gum_v8_bundle_new isol gumjs_debug_modules w6;
          p2 = p1\<lparr>debug_bundle := Some db\<rparr>;
          w8 = emit (Leave Context_Scope isol) w7;
          w9 = emit (Leave HandleScope isol) w8;
          w10 = emit (Leave Isolate_Scope isol) w9;
          w11 = emit (Leave Locker isol) w10
      in (p2, w11))"

text \<open>
  The constructor reads the host clock in its initialiser list, for \<open>start_time\<close>. The
  rest of the initialisers and the body (the allocator, the initialisation of the engine,
  the new isolate, the two bundle compilations) run after that reading and take time:
  \<open>elapsed\<close> is the number of microseconds by which the host clock has moved on when the
  constructor returns.
\<close>

definition GumV8Platform_new :: "gint64 \<Rightarrow> world \<Rightarrow> GumV8Platform \<times> world" where
  "GumV8Platform_new elapsed w =
     (let (sched, w1) = gum_script_scheduler_new w;
          start = g_get_monotonic_time w1;
          (alloc, w2) = fresh_handle w1;
          w3 = emit (New_GumArrayBufferAllocator alloc) w2;
          w4 = emit V8_InitializePlatform w3;
          w5 = emit V8_Initialize w4;
          (isol, w6) = fresh_handle w5;
          w7 = emit (Isolate_New alloc isol) w6;
          w8 = emit (SetFatalErrorHandler isol) w7;
          p = \<lparr>disposing = False, objc_bundle = None, java_bundle = None,
               scheduler = sched, start_time = start, array_buffer_allocator = alloc,
               isolate = isol, runtime_bundle = None, debug_bundle = None\<rparr>;
          (p1, w9) = InitRuntime p w8
      in (p1, w9\<lparr>clock := clock w9 + elapsed\<rparr>))"

subsection \<open>The lazily compiled bundles\<close>

definition GetObjCBundle :: "GumV8Platform \<Rightarrow> world \<Rightarrow> GumV8Bundle option \<times> GumV8Platform \<times> world" where
  "GetObjCBundle p w =
     (if objc_bundle p = None
      then (let (b, w1) = gum_v8_bundle_new (isolate p) gumjs_objc_modules w;
                p1 = p\<lparr>objc_bundle := Some b\<rparr>
            in (objc_bundle p1, p1, w1))
      else (objc_bundle p, p, w))"

definition GetJavaBundle :: "GumV8Platform \<Rightarrow> world \<Rightarrow> GumV8Bundle option \<times> GumV8Platform \<times> world" where
  "GetJavaBundle p w =
     (if java_bundle p = None
      then (let (b, w1) = gum_v8_bundle_new (isolate p) gumjs_java_modules w;
                p1 = p\<lparr>java_bundle := Some b\<rparr>
            in (java_bundle p1, p1, w1))
      else (java_bundle p, p, w))"

subsection \<open>Teardown\<close>

definition GumV8Platform_delete :: "GumV8Platform \<Rightarrow> world \<Rightarrow> GumV8Platform \<times> world" where
  "GumV8Platform_delete p w =
     (let p1 = p\<lparr>disposing := True\<rparr>;
          w1 = emit (Store_disposing True) w;
          isol = isolate p1;
          w2 = emit (Enter Locker isol) w1;
          w3 = emit (Enter Isolate_Scope isol) w2;
          w4 = emit (Enter HandleScope isol) w3;
          w5 = (if objc_bundle p1 \<noteq> None then gum_v8_bundle_free (objc_bundle p1) w4 else w4);
          w6 = (if java_bundle p1 \<noteq> None then gum_v8_bundle_free (java_bundle p1) w5 else w5);
          w7 = gum_v8_bundle_free (debug_bundle p1) w6;
          w8 = gum_v8_bundle_free (runtime_bundle p1) w7;
          w9 = emit (Leave HandleScope isol) w8;
          w10 = emit (Leave Isolate_Scope isol) w9;
          w11 = emit (Leave Locker isol) w10;
          w12 = emit (Isolate_Dispose isol) w11;
          w13 = emit V8_Dispose w12;
          w14 = emit V8_ShutdownPlatform w13;
          w15 = emit (G_object_unref (scheduler p1)) w14;
          w16 = emit (Delete_allocator (array_buffer_allocator p1)) w15
      in (p1, w16))"

subsection \<open>The clock\<close>

text \<open>
  The difference of the two gint64 readings wraps around in the model (in C++ an overflow
  of this subtraction is undefined). The quotient by 1000 rounds towards zero, as the
  division of C++ does. The conversion of the quotient to double rounds, and so does the
  division by 1000.0.
\<close>

definition MonotonicallyIncreasingTime ::
  "(real \<Rightarrow> real) \<Rightarrow> GumV8Platform \<Rightarrow> world \<Rightarrow> real" where
  "MonotonicallyIncreasingTime fl p w =
     (let delta = g_get_monotonic_time w - start_time p
      in fl (fl (real_of_int (sint delta sdiv 1000)) / 1000))"

subsection \<open>The dispatch handlers\<close>

text \<open>Deleting a request runs its destructor, which deletes the task it owns.\<close>

definition delete_request :: "GumV8TaskRequest \<Rightarrow> world \<Rightarrow> world" where
  "delete_request request w = emit (Delete_request request) (emit (Delete_task (req_task request)) w)"

definition HandleTaskRequest :: "GumV8TaskRequest \<Rightarrow> world \<Rightarrow> world" where
  "HandleTaskRequest request w =
     (case req_isolate request of
        Some isol \<Rightarrow>
          (let w1 = emit (Enter Locker isol) w;
               w2 = emit (Enter Isolate_Scope isol) w1;
               w3 = emit (Enter HandleScope isol) w2;
               w4 = emit (Task_Run (req_task request)) w3;
               w5 = delete_request request w4;
               w6 = emit (Leave HandleScope isol) w5;
               w7 = emit (Leave Isolate_Scope isol) w6
           in emit (Leave Locker isol) w7)
      | None \<Rightarrow>
          (let w1 = emit (Task_Run (req_task request)) w
           in delete_request request w1))"

definition HandleDelayedTaskRequest :: "GumV8TaskRequest \<Rightarrow> world \<Rightarrow> bool \<times> world" where
  "HandleDelayedTaskRequest request w = (False, HandleTaskRequest request w)"

text \<open>
  The idle handler takes the lock of the request's isolate without testing the pointer:
  with a null isolate the behaviour is undefined.
\<close>

definition HandleIdleTaskRequest ::
  "(real \<Rightarrow> real) \<Rightarrow> GumV8TaskRequest \<Rightarrow> world \<Rightarrow> fault + world" where
  "HandleIdleTaskRequest fl request w =
     (case req_isolate request of
        None \<Rightarrow> Inl Undefined_behaviour
      | Some isol \<Rightarrow>
          (let w1 = emit (Enter Locker isol) w;
               w2 = emit (Enter Isolate_Scope isol) w1;
               w3 = emit (Enter HandleScope isol) w2;
               deadline_in_seconds =
                 fl (MonotonicallyIncreasingTime fl (req_platform request) w3 + fl (1 / 60));
               w4 = emit (IdleTask_Run (req_task request) deadline_in_seconds) w3;
               w5 = delete_request request w4;
               w6 = emit (Leave HandleScope isol) w5;
               w7 = emit (Leave Isolate_Scope isol) w6
           in Inr (emit (Leave Locker isol) w7)))"

subsection \<open>The dispatch operations\<close>

definition CallOnBackgroundThread ::
  "GumV8Platform \<Rightarrow> Task \<Rightarrow> ExpectedRuntime \<Rightarrow> world \<Rightarrow> world" where
  "CallOnBackgroundThread p task expected_runtime w =
     (if disposing p
      then emit (Delete_task task) (emit (Task_Run task) w)
      else (let request = \<lparr>req_platform = p, req_isolate = None, req_task = task\<rparr>
            in gum_script_scheduler_push_job_on_thread_pool (scheduler p)
                 (Job_HandleTaskRequest request) w))"

text \<open>g_assert aborts the process when its condition is false.\<close>

definition CallOnForegroundThread ::
  "GumV8Platform \<Rightarrow> Isolate option \<Rightarrow> Task \<Rightarrow> world \<Rightarrow> fault + world" where
  "CallOnForegroundThread p for_isolate task w =
     (if disposing p then Inl Assertion_failed
      else (let request = \<lparr>req_platform = p, req_isolate = for_isolate, req_task = task\<rparr>
            in Inr (gum_script_scheduler_push_job_on_js_thread (scheduler p) G_PRIORITY_DEFAULT
                      (Job_HandleTaskRequest request) w)))"

definition CallDelayedOnForegroundThread ::
  "(real \<Rightarrow> real) \<Rightarrow> GumV8Platform \<Rightarrow> Isolate option \<Rightarrow> Task \<Rightarrow> real \<Rightarrow> world
     \<Rightarrow> fault + world" where
  "CallDelayedOnForegroundThread fl p for_isolate task delay_in_seconds w =
     (if disposing p then Inl Assertion_failed
      else (let request = \<lparr>req_platform = p, req_isolate = for_isolate, req_task = task\<rparr>
            in case guint_of_double (fl (delay_in_seconds * 1000)) of
                 None \<Rightarrow> Inl Undefined_behaviour
               | Some iv \<Rightarrow>
                   (let (source, w1) = g_timeout_source_new iv w;
                        w2 = g_source_set_priority source G_PRIORITY_DEFAULT w1;
                        w3 = g_source_set_callback source
                               (Callback_HandleDelayedTaskRequest request) w2;
                        w4 = g_source_attach source
                               (gum_script_scheduler_get_js_context (scheduler p)) w3
                    in Inr (g_source_unref source w4))))"

definition CallIdleOnForegroundThread ::
  "GumV8Platform \<Rightarrow> Isolate option \<Rightarrow> IdleTask \<Rightarrow> world \<Rightarrow> fault + world" where
  "CallIdleOnForegroundThread p for_isolate task w =
     (if disposing p then Inl Assertion_failed
      else (let request = \<lparr>req_platform = p, req_isolate = for_isolate, req_task = task\<rparr>
            in Inr (gum_script_scheduler_push_job_on_js_thread (scheduler p) G_PRIORITY_DEFAULT
                      (Job_HandleIdleTaskRequest request) w)))"

section \<open>The host running what was submitted\<close>

text \<open>
  Modelled from the spec: the scheduler later invokes the handler named at submission, with
  the request as its argument.
\<close>

fun run_job :: "(real \<Rightarrow> real) \<Rightarrow> job \<Rightarrow> world \<Rightarrow> fault + world" where
  "run_job fl (Job_HandleTaskRequest request) w = Inr (HandleTaskRequest request w)"
| "run_job fl (Job_HandleIdleTaskRequest request) w = HandleIdleTaskRequest fl request w"

fun invoke_callback :: "source_callback \<Rightarrow> world \<Rightarrow> bool \<times> world" where
  "invoke_callback (Callback_HandleDelayedTaskRequest request) w = HandleDelayedTaskRequest request w"

text \<open>
  Modelled from the spec: the timer mechanism of the event loop. When an attached timer
  fires, its callback is called; a callback that reports "do not repeat" (FALSE) has its
  source detached from the loop, which drops the loop's reference. A source that is not
  attached does not fire.
\<close>

definition timeout_dispatch :: "GSourceId \<Rightarrow> world \<Rightarrow> world" where
  "timeout_dispatch s w =
     (case sources w s of
        None \<Rightarrow> w
      | Some src \<Rightarrow>
          (case source_context src of
             None \<Rightarrow> w
           | Some ctx \<Rightarrow>
               (case source_callback src of
                  None \<Rightarrow> g_source_destroy s w
                | Some cb \<Rightarrow>
                    (let (again, w1) = invoke_callback cb w
                     in if again then w1 else g_source_destroy s w1))))"

text \<open>
  A life of the platform between construction and teardown: the calls of the engine and
  of the scripts into the platform, interleaved with the host moving its clock by some
  microseconds, running one of the queued jobs (in any order), or firing a timer. A call
  that aborts ends the life.
\<close>

datatype call =
  Call_GetObjCBundle
| Call_GetJavaBundle
| Call_OnBackgroundThread Task ExpectedRuntime
| Call_OnForegroundThread "Isolate option" Task
| Call_DelayedOnForegroundThread "Isolate option" Task real
| Call_IdleOnForegroundThread "Isolate option" IdleTask
| Host_clock_advance gint64
| Host_run_pool_job nat
| Host_run_js_job nat
| Host_fire_timer GSourceId

definition with_platform :: "GumV8Platform \<Rightarrow> fault + world \<Rightarrow> fault + GumV8Platform \<times> world" where
  "with_platform p r = (case r of Inl f \<Rightarrow> Inl f | Inr w \<Rightarrow> Inr (p, w))"

definition remove_nth :: "nat \<Rightarrow> 'a list \<Rightarrow> 'a list" where
  "remove_nth n xs = take n xs @ drop (Suc n) xs"

fun step ::
  "(real \<Rightarrow> real) \<Rightarrow> call \<Rightarrow> GumV8Platform \<Rightarrow> world \<Rightarrow> fault + GumV8Platform \<times> world" where
  "step fl Call_GetObjCBundle p w = Inr (snd (GetObjCBundle p w))"
| "step fl Call_GetJavaBundle p w = Inr (snd (GetJavaBundle p w))"
| "step fl (Call_OnBackgroundThread task er) p w = Inr (p, CallOnBackgroundThread p task er w)"
| "step fl (Call_OnForegroundThread i task) p w =
     with_platform p (CallOnForegroundThread p i task w)"
| "step fl (Call_DelayedOnForegroundThread i task d) p w =
     with_platform p (CallDelayedOnForegroundThread fl p i task d w)"
| "step fl (Call_IdleOnForegroundThread i task) p w =
     with_platform p (CallIdleOnForegroundThread p i task w)"
| "step fl (Host_clock_advance d) p w = Inr (p, w\<lparr>clock := clock w + d\<rparr>)"
| "step fl (Host_run_pool_job n) p w =
     (if n < length (thread_pool w)
      then with_platform p
             (run_job fl (snd (thread_pool w ! n))
                (w\<lparr>thread_pool := remove_nth n (thread_pool w)\<rparr>))
      else Inr (p, w))"
| "step fl (Host_run_js_job n) p w =
     (if n < length (js_thread w)
      then with_platform p
             (run_job fl (snd (snd (js_thread w ! n)))
                (w\<lparr>js_thread := remove_nth n (js_thread w)\<rparr>))
      else Inr (p, w))"
| "step fl (Host_fire_timer s) p w = Inr (p, timeout_dispatch s w)"

fun run_calls ::
  "(real \<Rightarrow> real) \<Rightarrow> call list \<Rightarrow> GumV8Platform \<Rightarrow> world \<Rightarrow> fault + GumV8Platform \<times> world" where
  "run_calls fl [] p w = Inr (p, w)"
| "run_calls fl (c # cs) p w =
     (case step fl c p w of Inl f \<Rightarrow> Inl f | Inr (p1, w1) \<Rightarrow> run_calls fl cs p1 w1)"

section \<open>Reading the events\<close>

text \<open>The events recorded between an earlier world and a later one.\<close>

definition events_since :: "world \<Rightarrow> world \<Rightarrow> event list" where
  "events_since w w' = drop (length (trace w)) (trace w')"

text \<open>The bundles compiled from a module table, and the pointers handed to the bundle destructor.\<close>

fun compiled :: "module_table \<Rightarrow> event list \<Rightarrow> GumV8Bundle list" where
  "compiled m [] = []"
| "compiled m (Gum_v8_bundle_new i m' b # es) = (if m' = m then b # compiled m es else compiled m es)"
| "compiled m (e # es) = compiled m es"

fun created :: "event list \<Rightarrow> GumV8Bundle list" where
  "created [] = []"
| "created (Gum_v8_bundle_new i m b # es) = b # created es"
| "created (e # es) = created es"

fun freed :: "event list \<Rightarrow> GumV8Bundle option list" where
  "freed [] = []"
| "freed (Gum_v8_bundle_free b # es) = b # freed es"
| "freed (e # es) = freed es"

text \<open>
  The isolates whose lock is held after a run of events, and whether every bundle was
  compiled with the lock of its isolate held and destroyed with a lock held.
\<close>

fun held_after :: "Isolate list \<Rightarrow> event list \<Rightarrow> Isolate list" where
  "held_after held [] = held"
| "held_after held (Enter Locker i # es) = held_after (i # held) es"
| "held_after held (Leave Locker i # es) = held_after (remove1 i held) es"
| "held_after held (e # es) = held_after held es"

fun bundles_under_lock :: "Isolate list \<Rightarrow> event list \<Rightarrow> bool" where
  "bundles_under_lock held [] = True"
| "bundles_under_lock held (Enter Locker i # es) = bundles_under_lock (i # held) es"
| "bundles_under_lock held (Leave Locker i # es) = bundles_under_lock (remove1 i held) es"
| "bundles_under_lock held (Gum_v8_bundle_new i m b # es) =
     (i \<in> set held \<and> bundles_under_lock held es)"
| "bundles_under_lock held (Gum_v8_bundle_free b # es) =
     (held \<noteq> [] \<and> bundles_under_lock held es)"
| "bundles_under_lock held (e # es) = bundles_under_lock held es"

text \<open>The idle tasks run, each with the deadline it was given.\<close>

fun idle_deadlines :: "event list \<Rightarrow> (IdleTask \<times> real) list" where
  "idle_deadlines [] = []"
| "idle_deadlines (IdleTask_Run t d # es) = (t, d) # idle_deadlines es"
| "idle_deadlines (e # es) = idle_deadlines es"

text \<open>A pointer slot as the list of what it holds.\<close>

fun slot :: "'a option \<Rightarrow> 'a list" where
  "slot None = []"
| "slot (Some x) = [x]"

text \<open>
  What holds of a platform between construction and teardown, in terms of the events since
  the world \<open>w0\<close> it was constructed in: every bundle compiled so far sits in the slot of
  its module table, the two eager slots are filled, no bundle has been destroyed, and
  teardown has not begun.
\<close>

definition alive :: "world \<Rightarrow> GumV8Platform \<Rightarrow> world \<Rightarrow> bool" where
  "alive w0 p w =
     (take (length (trace w0)) (trace w) = trace w0
      \<and> length (trace w0) \<le> length (trace w)
      \<and> compiled gumjs_runtime_modules (events_since w0 w) = slot (runtime_bundle p)
      \<and> compiled gumjs_debug_modules (events_since w0 w) = slot (debug_bundle p)
      \<and> compiled gumjs_objc_modules (events_since w0 w) = slot (objc_bundle p)
      \<and> compiled gumjs_java_modules (events_since w0 w) = slot (java_bundle p)
      \<and> runtime_bundle p \<noteq> None
      \<and> debug_bundle p \<noteq> None
      \<and> list_all (\<lambda>b. b < next_handle w) (created (events_since w0 w))
      \<and> distinct (created (events_since w0 w))
      \<and> freed (events_since w0 w) = []
      \<and> \<not> disposing p)"

text \<open>
  A stretch of the run in which no bundle is compiled or destroyed: events are only added,
  none of them a bundle event, and no address is given back.
\<close>

definition quiet :: "world \<Rightarrow> world \<Rightarrow> bool" where
  "quiet w w' =
     (next_handle w \<le> next_handle w'
      \<and> take (length (trace w)) (trace w') = trace w
      \<and> length (trace w) \<le> length (trace w')
      \<and> created (events_since w w') = []
      \<and> freed (events_since w w') = [])"

text \<open>The timer source that delayed foreground dispatch leaves attached to the event loop.\<close>

definition scheduled_timer ::
  "(real \<Rightarrow> real) \<Rightarrow> GumV8Platform \<Rightarrow> Isolate option \<Rightarrow> Task \<Rightarrow> real \<Rightarrow> GSource" where
  "scheduled_timer fl p for_isolate task delay_in_seconds =
     \<lparr>source_interval = word_of_int \<lfloor>fl (delay_in_seconds * 1000)\<rfloor>,
      source_priority = G_PRIORITY_DEFAULT,
      source_callback = Some (Callback_HandleDelayedTaskRequest
         \<lparr>req_platform = p, req_isolate = for_isolate, req_task = task\<rparr>),
      source_context = Some (gum_script_scheduler_get_js_context (scheduler p)),
      source_refs = 1\<rparr>"

subsection \<open>A sample world and platform\<close>

definition sample_world :: world where
  "sample_world =
     \<lparr>clock = 1000, next_handle = 1, trace = [], thread_pool = [], js_thread = [],
      sources = Map.empty\<rparr>"

definition sample_platform :: GumV8Platform where
  "sample_platform =
     \<lparr>disposing = False, objc_bundle = None, java_bundle = None, scheduler = 1,
      start_time = 1000, array_buffer_allocator = 2, isolate = 3,
      runtime_bundle = Some 4, debug_bundle = Some 5\<rparr>"

definition exact :: "real \<Rightarrow> real" where
  "exact x = x"

definition sample_running :: world where
  "sample_running =
     \<lparr>clock = 3500, next_handle = 6, trace = [], thread_pool = [], js_thread = [],
      sources = Map.empty\<rparr>"

definition sample_scheduled :: world where
  "sample_scheduled =
     \<lparr>clock = 3500, next_handle = 7, trace = [], thread_pool = [], js_thread = [],
      sources = [6 \<mapsto> scheduled_timer exact sample_platform (Some 3) 7 (1 / 20)]\<rparr>"

section \<open>Basic facts about the event record\<close>

lemma trace_emit [simp]: "trace (emit e w) = trace w @ [e]"
  by (simp add: emit_def)

lemma next_handle_emit [simp]: "next_handle (emit e w) = next_handle w"
  by (simp add: emit_def)

lemma clock_emit [simp]: "clock (emit e w) = clock w"
  by (simp add: emit_def)

lemma thread_pool_emit [simp]: "thread_pool (emit e w) = thread_pool w"
  by (simp add: emit_def)

lemma js_thread_emit [simp]: "js_thread (emit e w) = js_thread w"
  by (simp add: emit_def)

lemma sources_emit [simp]: "sources (emit e w) = sources w"
  by (simp add: emit_def)

lemma events_since_append: "trace w' = trace w @ es \<Longrightarrow> events_since w w' = es"
  by (simp add: events_since_def)

lemma events_since_same [simp]: "events_since w w = []"
  by (simp add: events_since_def)

lemma compiled_append [simp]: "compiled m (xs @ ys) = compiled m xs @ compiled m ys"
  by (induction m xs rule: compiled.induct) simp_all

lemma created_append [simp]: "created (xs @ ys) = created xs @ created ys"
  by (induction xs rule: created.induct) simp_all

lemma freed_append [simp]: "freed (xs @ ys) = freed xs @ freed ys"
  by (induction xs rule: freed.induct) simp_all

lemma idle_deadlines_append [simp]:
  "idle_deadlines (xs @ ys) = idle_deadlines xs @ idle_deadlines ys"
  by (induction xs rule: idle_deadlines.induct) simp_all

lemma compiled_subset_created: "set (compiled m es) \<subseteq> set (created es)"
  by (induction m es rule: compiled.induct) auto

lemma compiled_Nil_if_created_Nil: "created es = [] \<Longrightarrow> compiled m es = []"
  using compiled_subset_created [of m es] by simp

lemma created_by_table:
  "set (created es) =
     set (compiled gumjs_runtime_modules es) \<union> set (compiled gumjs_debug_modules es)
     \<union> set (compiled gumjs_objc_modules es) \<union> set (compiled gumjs_java_modules es)"
proof (induction es rule: created.induct)
  case (2 i m b es)
  then show ?case by (cases m) auto
qed simp_all

lemma distinct_compiled_one: "distinct (created es) \<Longrightarrow> distinct (compiled m es)"
proof (induction m es rule: compiled.induct)
  case (2 m i m' b es)
  then show ?case using compiled_subset_created [of m es] by auto
qed simp_all

lemma compiled_disjoint:
  "distinct (created es) \<Longrightarrow> m \<noteq> m' \<Longrightarrow> set (compiled m es) \<inter> set (compiled m' es) = {}"
proof (induction m es rule: compiled.induct)
  case (2 m i m'' b es)
  then show ?case
    using compiled_subset_created [of m es] compiled_subset_created [of m' es] by auto
qed simp_all

lemma distinct_compiled:
  assumes "distinct (created es)"
  shows "distinct (compiled gumjs_objc_modules es @ compiled gumjs_java_modules es
                  @ compiled gumjs_debug_modules es @ compiled gumjs_runtime_modules es)"
  using distinct_compiled_one [OF assms] compiled_disjoint [OF assms]
  by (simp add: Int_Un_distrib)

lemma freed_map_free [simp]: "freed (map (\<lambda>b. Gum_v8_bundle_free (Some b)) bs) = map Some bs"
  by (induction bs) simp_all

lemma created_map_free [simp]: "created (map (\<lambda>b. Gum_v8_bundle_free (Some b)) bs) = []"
  by (induction bs) simp_all

lemma slot_Some: "x \<noteq> None \<Longrightarrow> [x] = map Some (slot x)"
  by (cases x) simp_all

section \<open>What each function records\<close>

lemma HandleTaskRequest_trace:
  "trace (HandleTaskRequest r w) = trace w @
     (case req_isolate r of
        None \<Rightarrow> [Task_Run (req_task r), Delete_task (req_task r), Delete_request r]
      | Some i \<Rightarrow> [Enter Locker i, Enter Isolate_Scope i, Enter HandleScope i,
                   Task_Run (req_task r), Delete_task (req_task r), Delete_request r,
                   Leave HandleScope i, Leave Isolate_Scope i, Leave Locker i])"
  by (simp add: HandleTaskRequest_def delete_request_def Let_def split: option.split)

lemma HandleTaskRequest_rest [simp]:
  "next_handle (HandleTaskRequest r w) = next_handle w"
  "thread_pool (HandleTaskRequest r w) = thread_pool w"
  "js_thread (HandleTaskRequest r w) = js_thread w"
  "sources (HandleTaskRequest r w) = sources w"
  "clock (HandleTaskRequest r w) = clock w"
  by (simp_all add: HandleTaskRequest_def delete_request_def Let_def split: option.split)

lemma HandleIdleTaskRequest_Some:
  "req_isolate r = Some i \<Longrightarrow>
   HandleIdleTaskRequest fl r w =
     Inr (w\<lparr>trace := trace w @
          [Enter Locker i, Enter Isolate_Scope i, Enter HandleScope i,
           IdleTask_Run (req_task r)
             (fl (MonotonicallyIncreasingTime fl (req_platform r) w + fl (1 / 60))),
           Delete_task (req_task r), Delete_request r,
           Leave HandleScope i, Leave Isolate_Scope i, Leave Locker i]\<rparr>)"
  by (simp add: HandleIdleTaskRequest_def delete_request_def emit_def Let_def
      MonotonicallyIncreasingTime_def g_get_monotonic_time_def)

lemma HandleIdleTaskRequest_None:
  "req_isolate r = None \<Longrightarrow> HandleIdleTaskRequest fl r w = Inl Undefined_behaviour"
  by (simp add: HandleIdleTaskRequest_def)

lemma invoke_callback_eq:
  "invoke_callback cb w =
     (False, HandleTaskRequest (case cb of Callback_HandleDelayedTaskRequest r \<Rightarrow> r) w)"
  by (cases cb) (simp add: HandleDelayedTaskRequest_def)

lemma update_source_rest [simp]:
  "trace (update_source s f w) = trace w"
  "next_handle (update_source s f w) = next_handle w"
  by (simp_all add: update_source_def split: option.split)

lemma g_source_unref_rest [simp]:
  "trace (g_source_unref s w) = trace w"
  "next_handle (g_source_unref s w) = next_handle w"
  by (simp_all add: g_source_unref_def split: option.split)

lemma g_source_destroy_rest [simp]:
  "trace (g_source_destroy s w) = trace w"
  "next_handle (g_source_destroy s w) = next_handle w"
  by (simp_all add: g_source_destroy_def split: option.split)

lemma gum_v8_bundle_new_eq:
  "gum_v8_bundle_new i m w =
     (next_handle w, w\<lparr>next_handle := Suc (next_handle w),
                       trace := trace w @ [Gum_v8_bundle_new i m (next_handle w)]\<rparr>)"
  by (simp add: gum_v8_bundle_new_def fresh_handle_def emit_def)

lemma GetObjCBundle_cached:
  "objc_bundle p = Some b \<Longrightarrow> GetObjCBundle p w = (Some b, p, w)"
  by (simp add: GetObjCBundle_def)

lemma GetObjCBundle_first:
  "objc_bundle p = None \<Longrightarrow>
   GetObjCBundle p w =
     (Some (next_handle w), p\<lparr>objc_bundle := Some (next_handle w)\<rparr>,
      w\<lparr>next_handle := Suc (next_handle w),
        trace := trace w @ [Gum_v8_bundle_new (isolate p) gumjs_objc_modules (next_handle w)]\<rparr>)"
  by (simp add: GetObjCBundle_def gum_v8_bundle_new_eq)

lemma GetJavaBundle_cached:
  "java_bundle p = Some b \<Longrightarrow> GetJavaBundle p w = (Some b, p, w)"
  by (simp add: GetJavaBundle_def)

lemma GetJavaBundle_first:
  "java_bundle p = None \<Longrightarrow>
   GetJavaBundle p w =
     (Some (next_handle w), p\<lparr>java_bundle := Some (next_handle w)\<rparr>,
      w\<lparr>next_handle := Suc (next_handle w),
        trace := trace w @ [Gum_v8_bundle_new (isolate p) gumjs_java_modules (next_handle w)]\<rparr>)"
  by (simp add: GetJavaBundle_def gum_v8_bundle_new_eq)

lemma GumV8Platform_new_eq:
  "GumV8Platform_new elapsed w =
     (\<lparr>disposing = False, objc_bundle = None, java_bundle = None,
       scheduler = next_handle w, start_time = clock w,
       array_buffer_allocator = next_handle w + 1, isolate = next_handle w + 2,
       runtime_bundle = Some (next_handle w + 3), debug_bundle = Some (next_handle w + 4)\<rparr>,
      w\<lparr>clock := clock w + elapsed, next_handle := next_handle w + 5,
        trace := trace w @
          [Gum_script_scheduler_new (next_handle w),
           New_GumArrayBufferAllocator (next_handle w + 1),
           V8_InitializePlatform, V8_Initialize,
           Isolate_New (next_handle w + 1) (next_handle w + 2),
           SetFatalErrorHandler (next_handle w + 2),
           Enter Locker (next_handle w + 2), Enter Isolate_Scope (next_handle w + 2),
           Enter HandleScope (next_handle w + 2), Context_New (next_handle w + 2),
           Enter Context_Scope (next_handle w + 2),
           Gum_v8_bundle_new (next_handle w + 2) gumjs_runtime_modules (next_handle w + 3),
           Gum_v8_bundle_new (next_handle w + 2) gumjs_debug_modules (next_handle w + 4),
           Leave Context_Scope (next_handle w + 2), Leave HandleScope (next_handle w + 2),
           Leave Isolate_Scope (next_handle w + 2), Leave Locker (next_handle w + 2)]\<rparr>)"
  by (simp add: GumV8Platform_new_def InitRuntime_def gum_script_scheduler_new_def
      gum_v8_bundle_new_def fresh_handle_def emit_def g_get_monotonic_time_def Let_def)

lemma GumV8Platform_delete_trace:
  "trace (snd (GumV8Platform_delete p w)) = trace w @
     [Store_disposing True, Enter Locker (isolate p), Enter Isolate_Scope (isolate p),
      Enter HandleScope (isolate p)]
     @ map (\<lambda>b. Gum_v8_bundle_free (Some b)) (slot (objc_bundle p))
     @ map (\<lambda>b. Gum_v8_bundle_free (Some b)) (slot (java_bundle p))
     @ [Gum_v8_bundle_free (debug_bundle p), Gum_v8_bundle_free (runtime_bundle p),
        Leave HandleScope (isolate p), Leave Isolate_Scope (isolate p), Leave Locker (isolate p),
        Isolate_Dispose (isolate p), V8_Dispose, V8_ShutdownPlatform,
        G_object_unref (scheduler p), Delete_allocator (array_buffer_allocator p)]"
  by (cases "objc_bundle p"; cases "java_bundle p")
     (simp_all add: GumV8Platform_delete_def gum_v8_bundle_free_def Let_def)

section \<open>Quiet stretches\<close>

lemma quiet_iff:
  "quiet w w' \<longleftrightarrow> next_handle w \<le> next_handle w' \<and>
     (\<exists>es. trace w' = trace w @ es \<and> created es = [] \<and> freed es = [])"
proof
  assume q: "quiet w w'"
  then have "trace w' = trace w @ events_since w w'"
    unfolding quiet_def events_since_def by (metis append_take_drop_id)
  with q show "next_handle w \<le> next_handle w' \<and>
     (\<exists>es. trace w' = trace w @ es \<and> created es = [] \<and> freed es = [])"
    unfolding quiet_def by blast
next
  assume "next_handle w \<le> next_handle w' \<and>
     (\<exists>es. trace w' = trace w @ es \<and> created es = [] \<and> freed es = [])"
  then show "quiet w w'"
    by (auto simp: quiet_def events_since_def)
qed

lemma quiet_refl [simp]: "quiet w w"
  by (simp add: quiet_iff)

lemma quiet_HandleTaskRequest:
  "next_handle w0 \<le> next_handle w \<Longrightarrow> trace w = trace w0 \<Longrightarrow> quiet w0 (HandleTaskRequest r w)"
  by (auto simp: quiet_iff HandleTaskRequest_trace split: option.split)

lemma quiet_run_job:
  assumes "run_job fl j w = Inr w'" "next_handle w0 \<le> next_handle w" "trace w = trace w0"
  shows "quiet w0 w'"
proof (cases j)
  case (Job_HandleTaskRequest r)
  then show ?thesis using assms quiet_HandleTaskRequest by auto
next
  case (Job_HandleIdleTaskRequest r)
  then have h: "HandleIdleTaskRequest fl r w = Inr w'" using assms by simp
  then obtain i where "req_isolate r = Some i"
    by (cases "req_isolate r") (simp_all add: HandleIdleTaskRequest_None)
  then show ?thesis
    using h assms(2,3) by (auto simp: HandleIdleTaskRequest_Some quiet_iff)
qed

lemma quiet_timeout_dispatch: "quiet w (timeout_dispatch s w)"
proof -
  have "quiet w (g_source_destroy s w)" by (simp add: quiet_iff)
  moreover have "quiet w (g_source_destroy s (HandleTaskRequest r w))" for r
    by (auto simp: quiet_iff HandleTaskRequest_trace split: option.split)
  ultimately show ?thesis
    by (auto simp: timeout_dispatch_def invoke_callback_eq quiet_iff split: option.split)
qed

lemma quiet_CallOnBackgroundThread: "quiet w (CallOnBackgroundThread p t er w)"
  by (simp add: quiet_iff CallOnBackgroundThread_def
      gum_script_scheduler_push_job_on_thread_pool_def)

lemma quiet_CallOnForegroundThread: "CallOnForegroundThread p i t w = Inr w' \<Longrightarrow> quiet w w'"
  by (auto simp: quiet_iff CallOnForegroundThread_def
      gum_script_scheduler_push_job_on_js_thread_def split: if_splits)

lemma quiet_CallIdleOnForegroundThread:
  "CallIdleOnForegroundThread p i t w = Inr w' \<Longrightarrow> quiet w w'"
  by (auto simp: quiet_iff CallIdleOnForegroundThread_def
      gum_script_scheduler_push_job_on_js_thread_def split: if_splits)

lemma quiet_CallDelayedOnForegroundThread:
  "CallDelayedOnForegroundThread fl p i t d w = Inr w' \<Longrightarrow> quiet w w'"
  by (auto simp: quiet_iff CallDelayedOnForegroundThread_def g_timeout_source_new_def
      fresh_handle_def g_source_set_priority_def g_source_set_callback_def g_source_attach_def
      Let_def split: if_splits option.splits prod.splits)

lemma with_platform_Inr: "with_platform p r = Inr (p', w') \<longleftrightarrow> p' = p \<and> r = Inr w'"
  by (auto simp: with_platform_def split: sum.splits)

lemma quiet_step:
  assumes "step fl c p w = Inr (p', w')" "c \<noteq> Call_GetObjCBundle" "c \<noteq> Call_GetJavaBundle"
  shows "p' = p \<and> quiet w w'"
proof (cases c)
  case (Host_run_pool_job n)
  then show ?thesis using assms(1)
    by (auto simp: with_platform_Inr split: if_splits intro: quiet_run_job)
next
  case (Host_run_js_job n)
  then show ?thesis using assms(1)
    by (auto simp: with_platform_Inr split: if_splits intro: quiet_run_job)
next
  case (Host_clock_advance d)
  then show ?thesis using assms(1) by (auto simp: quiet_iff)
qed (use assms in \<open>auto simp: with_platform_Inr quiet_CallOnBackgroundThread
      quiet_timeout_dispatch
      dest: quiet_CallOnForegroundThread quiet_CallIdleOnForegroundThread
            quiet_CallDelayedOnForegroundThread\<close>)

section \<open>The life of a platform\<close>

lemma alive_trace: "alive w0 p w \<Longrightarrow> trace w = trace w0 @ events_since w0 w"
  unfolding alive_def events_since_def
  by (metis append_take_drop_id)

lemma events_since_trans:
  assumes "trace w = trace w0 @ events_since w0 w" "trace w' = trace w @ es"
  shows "events_since w0 w' = events_since w0 w @ es"
    and "take (length (trace w0)) (trace w') = trace w0"
    and "length (trace w0) \<le> length (trace w')"
proof -
  have "trace w' = trace w0 @ (events_since w0 w @ es)"
    using assms by simp
  then show "events_since w0 w' = events_since w0 w @ es"
    by (rule events_since_append)
  show "take (length (trace w0)) (trace w') = trace w0"
    using assms by (metis append_eq_conv_conj append.assoc)
  show "length (trace w0) \<le> length (trace w')"
    using assms by (metis length_append le_add1 append.assoc)
qed

lemma alive_quiet:
  assumes "alive w0 p w" "quiet w w'"
  shows "alive w0 p w'"
proof -
  from assms(2) obtain es where es: "trace w' = trace w @ es" "created es = []" "freed es = []"
    and nh: "next_handle w \<le> next_handle w'"
    by (auto simp: quiet_iff)
  note t = events_since_trans [OF alive_trace [OF assms(1)] es(1)]
  have c: "compiled m es = []" for m
    using es(2) by (rule compiled_Nil_if_created_Nil)
  have "list_all (\<lambda>b. b < next_handle w') (created (events_since w0 w))"
    using assms(1) nh unfolding alive_def list_all_iff by fastforce
  then show ?thesis
    using assms(1) unfolding alive_def t by (simp add: es c)
qed

lemma alive_fresh:
  assumes "alive w0 p w"
  shows "next_handle w \<notin> set (created (events_since w0 w))"
    and "list_all (\<lambda>b. b < Suc (next_handle w)) (created (events_since w0 w))"
  using assms unfolding alive_def list_all_iff by fastforce+

lemma alive_GetObjCBundle:
  assumes "alive w0 p w"
  shows "alive w0 (fst (snd (GetObjCBundle p w))) (snd (snd (GetObjCBundle p w)))"
proof (cases "objc_bundle p")
  case None
  let ?w = "w\<lparr>next_handle := Suc (next_handle w),
        trace := trace w @ [Gum_v8_bundle_new (isolate p) gumjs_objc_modules (next_handle w)]\<rparr>"
  have "trace ?w = trace w @ [Gum_v8_bundle_new (isolate p) gumjs_objc_modules (next_handle w)]"
    by simp
  note t = events_since_trans [OF alive_trace [OF assms] this]
  have "alive w0 (p\<lparr>objc_bundle := Some (next_handle w)\<rparr>) ?w"
    using assms alive_fresh [OF assms] None unfolding alive_def t by simp
  then show ?thesis by (simp add: GetObjCBundle_first [OF None])
next
  case (Some b)
  then show ?thesis using assms by (simp add: GetObjCBundle_cached)
qed

lemma alive_GetJavaBundle:
  assumes "alive w0 p w"
  shows "alive w0 (fst (snd (GetJavaBundle p w))) (snd (snd (GetJavaBundle p w)))"
proof (cases "java_bundle p")
  case None
  let ?w = "w\<lparr>next_handle := Suc (next_handle w),
        trace := trace w @ [Gum_v8_bundle_new (isolate p) gumjs_java_modules (next_handle w)]\<rparr>"
  have "trace ?w = trace w @ [Gum_v8_bundle_new (isolate p) gumjs_java_modules (next_handle w)]"
    by simp
  note t = events_since_trans [OF alive_trace [OF assms] this]
  have "alive w0 (p\<lparr>java_bundle := Some (next_handle w)\<rparr>) ?w"
    using assms alive_fresh [OF assms] None unfolding alive_def t by simp
  then show ?thesis by (simp add: GetJavaBundle_first [OF None])
next
  case (Some b)
  then show ?thesis using assms by (simp add: GetJavaBundle_cached)
qed

lemma objc_bundle_GetObjCBundle: "objc_bundle (fst (snd (GetObjCBundle p w))) \<noteq> None"
  by (cases "objc_bundle p") (simp_all add: GetObjCBundle_first GetObjCBundle_cached)

lemma java_bundle_GetObjCBundle: "java_bundle (fst (snd (GetObjCBundle p w))) = java_bundle p"
  by (cases "objc_bundle p") (simp_all add: GetObjCBundle_first GetObjCBundle_cached)

lemma java_bundle_GetJavaBundle: "java_bundle (fst (snd (GetJavaBundle p w))) \<noteq> None"
  by (cases "java_bundle p") (simp_all add: GetJavaBundle_first GetJavaBundle_cached)

lemma objc_bundle_GetJavaBundle: "objc_bundle (fst (snd (GetJavaBundle p w))) = objc_bundle p"
  by (cases "java_bundle p") (simp_all add: GetJavaBundle_first GetJavaBundle_cached)



lemma step_alive:
  assumes "step fl c p w = Inr (p', w')" "alive w0 p w"
  shows "alive w0 p' w'
         \<and> (objc_bundle p' \<noteq> None \<longleftrightarrow> objc_bundle p \<noteq> None \<or> c = Call_GetObjCBundle)
         \<and> (java_bundle p' \<noteq> None \<longleftrightarrow> java_bundle p \<noteq> None \<or> c = Call_GetJavaBundle)"
proof -
  consider "c = Call_GetObjCBundle" | "c = Call_GetJavaBundle"
    | "c \<noteq> Call_GetObjCBundle" "c \<noteq> Call_GetJavaBundle" by blast
  then show ?thesis
  proof cases
    case 1
    then have "p' = fst (snd (GetObjCBundle p w))" "w' = snd (snd (GetObjCBundle p w))"
      using assms(1) by (simp_all add: prod_eq_iff)
    then show ?thesis
      using 1 alive_GetObjCBundle [OF assms(2)]
      by (simp add: objc_bundle_GetObjCBundle java_bundle_GetObjCBundle)
  next
    case 2
    then have "p' = fst (snd (GetJavaBundle p w))" "w' = snd (snd (GetJavaBundle p w))"
      using assms(1) by (simp_all add: prod_eq_iff)
    then show ?thesis
      using 2 alive_GetJavaBundle [OF assms(2)]
      by (simp add: java_bundle_GetJavaBundle objc_bundle_GetJavaBundle)
  next
    case 3
    then have "p' = p" "quiet w w'"
      using quiet_step [OF assms(1)] by simp_all
    then show ?thesis
      using 3 alive_quiet [OF assms(2)] by simp
  qed
qed

lemma run_calls_alive:
  assumes "run_calls fl cs p w = Inr (p', w')" "alive w0 p w"
  shows "alive w0 p' w'
         \<and> (objc_bundle p' \<noteq> None \<longleftrightarrow> objc_bundle p \<noteq> None \<or> Call_GetObjCBundle \<in> set cs)
         \<and> (java_bundle p' \<noteq> None \<longleftrightarrow> java_bundle p \<noteq> None \<or> Call_GetJavaBundle \<in> set cs)"
  using assms
proof (induction cs arbitrary: p w)
  case Nil
  then show ?case by simp
next
  case (Cons c cs)
  from Cons.prems(1) obtain p1 w1 where s: "step fl c p w = Inr (p1, w1)"
    and r: "run_calls fl cs p1 w1 = Inr (p', w')"
    by (auto split: sum.splits)
  note a = step_alive [OF s Cons.prems(2)]
  from Cons.IH [OF r] a have b: "alive w0 p' w'
         \<and> (objc_bundle p' \<noteq> None \<longleftrightarrow> objc_bundle p1 \<noteq> None \<or> Call_GetObjCBundle \<in> set cs)
         \<and> (java_bundle p' \<noteq> None \<longleftrightarrow> java_bundle p1 \<noteq> None \<or> Call_GetJavaBundle \<in> set cs)"
    by blast
  show ?case
    using a b by auto
qed

lemma alive_GumV8Platform_new:
  "alive w (fst (GumV8Platform_new elapsed w)) (snd (GumV8Platform_new elapsed w))"
  by (simp add: GumV8Platform_new_eq alive_def events_since_def)



lemma teardown_frees_what_was_compiled:
  assumes "alive w0 p w"
  shows "distinct (freed (events_since w0 (snd (GumV8Platform_delete p w))))"
    and "set (freed (events_since w0 (snd (GumV8Platform_delete p w)))) =
         Some ` set (created (events_since w0 (snd (GumV8Platform_delete p w))))"
proof -
  let ?es = "events_since w0 w"
  note t = events_since_trans(1) [OF alive_trace [OF assms] GumV8Platform_delete_trace]
  have fr: "freed (events_since w0 (snd (GumV8Platform_delete p w))) =
      map Some (slot (objc_bundle p) @ slot (java_bundle p) @ slot (debug_bundle p)
                @ slot (runtime_bundle p))"
    using assms unfolding t alive_def by (simp add: slot_Some)
  have cr: "created (events_since w0 (snd (GumV8Platform_delete p w))) = created ?es"
    unfolding t by simp
  have sl: "slot (runtime_bundle p) = compiled gumjs_runtime_modules ?es"
    "slot (debug_bundle p) = compiled gumjs_debug_modules ?es"
    "slot (objc_bundle p) = compiled gumjs_objc_modules ?es"
    "slot (java_bundle p) = compiled gumjs_java_modules ?es"
    using assms unfolding alive_def by simp_all
  show "set (freed (events_since w0 (snd (GumV8Platform_delete p w)))) =
         Some ` set (created (events_since w0 (snd (GumV8Platform_delete p w))))"
    unfolding fr cr sl by (auto simp: created_by_table [of ?es])
  have d: "distinct (created ?es)" using assms unfolding alive_def by simp
  have "distinct (compiled gumjs_objc_modules ?es @ compiled gumjs_java_modules ?es
                  @ compiled gumjs_debug_modules ?es @ compiled gumjs_runtime_modules ?es)"
    using d by (rule distinct_compiled)
  then have "distinct (map Some (compiled gumjs_objc_modules ?es
                  @ compiled gumjs_java_modules ?es
                  @ compiled gumjs_debug_modules ?es @ compiled gumjs_runtime_modules ?es))"
    by (simp only: distinct_map inj_Some simp_thms)
  then show "distinct (freed (events_since w0 (snd (GumV8Platform_delete p w))))"
    unfolding fr sl .
qed

section \<open>The clock\<close>

lemma sdiv_1000_mono:
  fixes a b :: int
  assumes "a \<le> b"
  shows "a sdiv 1000 \<le> b sdiv 1000"
proof -
  have neg: "x sdiv 1000 = - ((- x) div 1000)" if "x < 0" for x :: int
    using that by (simp add: signed_divide_int_def sgn_if)
  have pos: "x sdiv 1000 = x div 1000" if "0 \<le> x" for x :: int
    using that by (cases "x = 0") (simp_all add: signed_divide_int_def sgn_if)
  consider "0 \<le> a" | "a < 0" "0 \<le> b" | "b < 0" by linarith
  then show ?thesis
  proof cases
    case 1
    then show ?thesis using assms by (simp add: pos zdiv_mono1)
  next
    case 2
    have "- ((- a) div 1000) \<le> 0" using 2 by (simp add: pos_imp_zdiv_nonneg_iff)
    moreover have "0 \<le> b div 1000" using 2 by (simp add: pos_imp_zdiv_nonneg_iff)
    ultimately show ?thesis using 2 by (simp add: pos neg)
  next
    case 3
    then have "a < 0" using assms by linarith
    have "(- b) div 1000 \<le> (- a) div 1000" using assms by (simp add: zdiv_mono1)
    then show ?thesis using 3 \<open>a < 0\<close> by (simp add: neg)
  qed
qed

lemma sint_diff_no_overflow:
  fixes t s :: gint64
  assumes "- (2 ^ 63) \<le> sint t - sint s" and "sint t - sint s < 2 ^ 63"
  shows "sint (t - s) = sint t - sint s"
  using assms by (simp add: sint_word_ariths signed_take_bit_int_eq_self)

lemma MonotonicallyIncreasingTime_no_overflow:
  assumes "- (2 ^ 63) \<le> sint (clock w) - sint (start_time p)"
    and "sint (clock w) - sint (start_time p) < 2 ^ 63"
  shows "MonotonicallyIncreasingTime fl p w =
           fl (fl (real_of_int ((sint (clock w) - sint (start_time p)) sdiv 1000)) / 1000)"
  using assms
  by (simp add: MonotonicallyIncreasingTime_def g_get_monotonic_time_def sint_diff_no_overflow)

lemma MonotonicallyIncreasingTime_mono:
  assumes "rounding fl"
    and "sint (clock w1) \<le> sint (clock w2)"
    and "- (2 ^ 63) \<le> sint (clock w1) - sint (start_time p)"
    and "sint (clock w2) - sint (start_time p) < 2 ^ 63"
  shows "MonotonicallyIncreasingTime fl p w1 \<le> MonotonicallyIncreasingTime fl p w2"
proof -
  have m: "mono fl" using assms(1) by (simp add: rounding_def)
  have 1: "MonotonicallyIncreasingTime fl p w1 =
           fl (fl (real_of_int ((sint (clock w1) - sint (start_time p)) sdiv 1000)) / 1000)"
    using assms(2-4) by (intro MonotonicallyIncreasingTime_no_overflow) linarith+
  have 2: "MonotonicallyIncreasingTime fl p w2 =
           fl (fl (real_of_int ((sint (clock w2) - sint (start_time p)) sdiv 1000)) / 1000)"
    using assms(2-4) by (intro MonotonicallyIncreasingTime_no_overflow) linarith+
  have "(sint (clock w1) - sint (start_time p)) sdiv 1000
        \<le> (sint (clock w2) - sint (start_time p)) sdiv 1000"
    using assms(2) by (intro sdiv_1000_mono) linarith
  then have "fl (real_of_int ((sint (clock w1) - sint (start_time p)) sdiv 1000))
        \<le> fl (real_of_int ((sint (clock w2) - sint (start_time p)) sdiv 1000))"
    by (intro monoD [OF m]) simp
  then have "fl (real_of_int ((sint (clock w1) - sint (start_time p)) sdiv 1000)) / 1000
        \<le> fl (real_of_int ((sint (clock w2) - sint (start_time p)) sdiv 1000)) / 1000"
    by (simp add: divide_right_mono)
  then show ?thesis
    unfolding 1 2 by (rule monoD [OF m])
qed

lemma MonotonicallyIncreasingTime_zero:
  "rounding fl \<Longrightarrow> clock w = start_time p \<Longrightarrow> MonotonicallyIncreasingTime fl p w = 0"
  by (simp add: MonotonicallyIncreasingTime_def g_get_monotonic_time_def rounding_def)


lemma MonotonicallyIncreasingTime_rounded:
  "rounding fl \<Longrightarrow> fl (MonotonicallyIncreasingTime fl p w) = MonotonicallyIncreasingTime fl p w"
  by (simp add: MonotonicallyIncreasingTime_def rounding_def Let_def)

lemma rounding_id: "rounding (\<lambda>x. x)"
  by (simp add: rounding_def mono_def)

section \<open>Timers\<close>

lemma guint_of_double_in_range:
  "0 \<le> x \<Longrightarrow> x < 2 ^ 32 \<Longrightarrow> guint_of_double x = Some (word_of_int \<lfloor>x\<rfloor>)"
  by (simp add: guint_of_double_def)

lemma CallDelayedOnForegroundThread_eq:
  assumes "\<not> disposing p" "0 \<le> fl (d * 1000)" "fl (d * 1000) < 2 ^ 32"
  shows "CallDelayedOnForegroundThread fl p fi task d w =
     Inr (w\<lparr>next_handle := Suc (next_handle w),
            sources := (sources w)(next_handle w \<mapsto> scheduled_timer fl p fi task d)\<rparr>)"
proof -
  have "guint_of_double (fl (d * 1000)) = Some (word_of_int \<lfloor>fl (d * 1000)\<rfloor>)"
    using assms(2,3) by (rule guint_of_double_in_range)
  then show ?thesis
    using assms(1)
    by (simp add: CallDelayedOnForegroundThread_def g_timeout_source_new_def fresh_handle_def
        g_source_set_priority_def g_source_set_callback_def g_source_attach_def
        g_source_unref_def update_source_def scheduled_timer_def Let_def)
qed

lemma interval_whole_milliseconds:
  assumes "0 \<le> x" "x < 2 ^ 32"
  shows "unat (word_of_int \<lfloor>x\<rfloor> :: guint) = nat \<lfloor>x\<rfloor>"
proof -
  have "0 \<le> \<lfloor>x\<rfloor>" using assms(1) by simp
  moreover have "\<lfloor>x\<rfloor> < 2 ^ 32"
    using assms(2) by (simp add: floor_less_iff)
  ultimately show ?thesis
    by (simp add: unat_eq_nat_uint uint_word_of_int take_bit_int_eq_self)
qed

lemma timeout_dispatch_one_shot:
  assumes "sources w s = Some src" "source_context src = Some ctx"
    "source_callback src = Some (Callback_HandleDelayedTaskRequest r)" "source_refs src = 1"
  shows "timeout_dispatch s w = (HandleTaskRequest r w)\<lparr>sources := (sources w)(s := None)\<rparr>"
  using assms
  by (simp add: timeout_dispatch_def HandleDelayedTaskRequest_def g_source_destroy_def
      update_source_def g_source_unref_def)

lemma timeout_dispatch_detached: "sources w s = None \<Longrightarrow> timeout_dispatch s w = w"
  by (simp add: timeout_dispatch_def)

section \<open>Background dispatch\<close>

text \<open>
  C1. When \<open>disposing\<close> is set, CallOnBackgroundThread runs the task on the calling
  thread and deletes it at once: the events are the run and the deletion, and neither job
  queue nor the timer sources change. When \<open>disposing\<close> is clear, the task is wrapped in a
  request without an isolate and appended to the thread pool's queue; no event is
  recorded, so the task is not run by the call.
\<close>

theorem CallOnBackgroundThread_synchronous_iff_disposing:
  "(disposing p \<longrightarrow>
      events_since w (CallOnBackgroundThread p task er w) = [Task_Run task, Delete_task task]
      \<and> thread_pool (CallOnBackgroundThread p task er w) = thread_pool w
      \<and> js_thread (CallOnBackgroundThread p task er w) = js_thread w
      \<and> sources (CallOnBackgroundThread p task er w) = sources w)
   \<and> (\<not> disposing p \<longrightarrow>
      thread_pool (CallOnBackgroundThread p task er w) =
        thread_pool w @ [(scheduler p, Job_HandleTaskRequest
           \<lparr>req_platform = p, req_isolate = None, req_task = task\<rparr>)]
      \<and> trace (CallOnBackgroundThread p task er w) = trace w
      \<and> js_thread (CallOnBackgroundThread p task er w) = js_thread w
      \<and> sources (CallOnBackgroundThread p task er w) = sources w)"
  by (simp add: CallOnBackgroundThread_def events_since_def
      gum_script_scheduler_push_job_on_thread_pool_def)

theorem CallOnBackgroundThread_synchronous_iff_disposing_witness:
  "trace (CallOnBackgroundThread (sample_platform\<lparr>disposing := True\<rparr>) 7 kShortRunningTask
      sample_running) = [Task_Run 7, Delete_task 7]
   \<and> thread_pool (CallOnBackgroundThread (sample_platform\<lparr>disposing := True\<rparr>) 7
      kShortRunningTask sample_running) = []
   \<and> thread_pool (CallOnBackgroundThread sample_platform 7 kShortRunningTask sample_running) =
      [(1, Job_HandleTaskRequest
          \<lparr>req_platform = sample_platform, req_isolate = None, req_task = 7\<rparr>)]
   \<and> trace (CallOnBackgroundThread sample_platform 7 kShortRunningTask sample_running) = []"
  using CallOnBackgroundThread_synchronous_iff_disposing
          [of "sample_platform\<lparr>disposing := True\<rparr>" sample_running 7 kShortRunningTask]
        CallOnBackgroundThread_synchronous_iff_disposing
          [of sample_platform sample_running 7 kShortRunningTask]
  by (simp add: sample_platform_def sample_running_def events_since_def)

text \<open>
  C10. The hint \<open>expected_runtime\<close> plays no part in background dispatch: two calls that
  differ only in the hint leave the same world, with the same events and the same queues.
  The platform itself is not changed by the call.
\<close>

theorem CallOnBackgroundThread_ignores_expected_runtime:
  "CallOnBackgroundThread p task er1 w = CallOnBackgroundThread p task er2 w"
  by (simp add: CallOnBackgroundThread_def)

section \<open>Foreground dispatch\<close>

text \<open>
  C2. Foreground, delayed foreground and idle foreground dispatch each assert that
  \<open>disposing\<close> is clear. With \<open>disposing\<close> set, each aborts and nothing is queued. With
  \<open>disposing\<close> clear, none of them takes the aborting branch: foreground and idle dispatch
  append their job to the script thread's queue at the default priority.
\<close>

theorem foreground_dispatch_asserts_not_disposing:
  "(disposing p \<longrightarrow>
      CallOnForegroundThread p for_isolate task w = Inl Assertion_failed
      \<and> CallDelayedOnForegroundThread fl p for_isolate task delay w = Inl Assertion_failed
      \<and> CallIdleOnForegroundThread p for_isolate task w = Inl Assertion_failed)
   \<and> (\<not> disposing p \<longrightarrow>
      CallOnForegroundThread p for_isolate task w =
        Inr (w\<lparr>js_thread := js_thread w @ [(scheduler p, G_PRIORITY_DEFAULT,
               Job_HandleTaskRequest
                 \<lparr>req_platform = p, req_isolate = for_isolate, req_task = task\<rparr>)]\<rparr>)
      \<and> CallDelayedOnForegroundThread fl p for_isolate task delay w \<noteq> Inl Assertion_failed
      \<and> CallIdleOnForegroundThread p for_isolate task w =
        Inr (w\<lparr>js_thread := js_thread w @ [(scheduler p, G_PRIORITY_DEFAULT,
               Job_HandleIdleTaskRequest
                 \<lparr>req_platform = p, req_isolate = for_isolate, req_task = task\<rparr>)]\<rparr>))"
  by (simp add: CallOnForegroundThread_def CallDelayedOnForegroundThread_def
      CallIdleOnForegroundThread_def gum_script_scheduler_push_job_on_js_thread_def
      split: option.split prod.split)

theorem foreground_dispatch_asserts_not_disposing_witness:
  "CallOnForegroundThread (sample_platform\<lparr>disposing := True\<rparr>) (Some 3) 7 sample_running
     = Inl Assertion_failed
   \<and> CallDelayedOnForegroundThread exact (sample_platform\<lparr>disposing := True\<rparr>) (Some 3) 7
       (1 / 20) sample_running = Inl Assertion_failed
   \<and> CallIdleOnForegroundThread (sample_platform\<lparr>disposing := True\<rparr>) (Some 3) 7
       sample_running = Inl Assertion_failed
   \<and> CallOnForegroundThread sample_platform (Some 3) 7 sample_running =
       Inr (sample_running\<lparr>js_thread := [(1, 0, Job_HandleTaskRequest
          \<lparr>req_platform = sample_platform, req_isolate = Some 3, req_task = 7\<rparr>)]\<rparr>)
   \<and> CallDelayedOnForegroundThread exact sample_platform (Some 3) 7 (1 / 20) sample_running
       \<noteq> Inl Assertion_failed
   \<and> CallIdleOnForegroundThread sample_platform (Some 3) 7 sample_running =
       Inr (sample_running\<lparr>js_thread := [(1, 0, Job_HandleIdleTaskRequest
          \<lparr>req_platform = sample_platform, req_isolate = Some 3, req_task = 7\<rparr>)]\<rparr>)"
  using foreground_dispatch_asserts_not_disposing
          [of "sample_platform\<lparr>disposing := True\<rparr>" "Some 3" 7 sample_running exact "1 / 20"]
        foreground_dispatch_asserts_not_disposing
          [of sample_platform "Some 3" 7 sample_running exact "1 / 20"]
  by (simp add: sample_platform_def sample_running_def G_PRIORITY_DEFAULT_def)

section \<open>The monotonic clock\<close>




section \<open>Idle tasks\<close>

text \<open>
  C3. Idle foreground dispatch, for an isolate that is not null, queues only the platform,
  the isolate and the task: no deadline is computed at submission. The deadline the idle
  task is run with is computed by the idle handler, from the host clock at the moment the
  handler runs, as the monotonic time plus 1/60 of a second. When the host clock at that
  moment is not before the clock at submission (and neither difference from \<open>start_time\<close>
  overflows), the deadline is at least the monotonic time at submission.
\<close>

theorem idle_deadline_computed_at_execution:
  assumes "rounding fl"
    and "\<not> disposing p"
    and "sint (clock w) \<le> sint (clock w')"
    and "- (2 ^ 63) \<le> sint (clock w) - sint (start_time p)"
    and "sint (clock w') - sint (start_time p) < 2 ^ 63"
  shows "CallIdleOnForegroundThread p (Some i) task w =
           Inr (w\<lparr>js_thread := js_thread w @ [(scheduler p, G_PRIORITY_DEFAULT,
                  Job_HandleIdleTaskRequest
                    \<lparr>req_platform = p, req_isolate = Some i, req_task = task\<rparr>)]\<rparr>)
       \<and> (case run_job fl (Job_HandleIdleTaskRequest
                    \<lparr>req_platform = p, req_isolate = Some i, req_task = task\<rparr>) w' of
             Inl f \<Rightarrow> False
           | Inr w'' \<Rightarrow>
               idle_deadlines (events_since w' w'') =
                 [(task, fl (MonotonicallyIncreasingTime fl p w' + fl (1 / 60)))])
       \<and> MonotonicallyIncreasingTime fl p w
           \<le> fl (MonotonicallyIncreasingTime fl p w' + fl (1 / 60))"
proof -
  have m: "mono fl" and z: "fl 0 = 0"
    using assms(1) by (simp_all add: rounding_def)
  have "MonotonicallyIncreasingTime fl p w \<le> MonotonicallyIncreasingTime fl p w'"
    using assms(1,3-5) by (rule MonotonicallyIncreasingTime_mono)
  moreover have "0 \<le> fl (1 / 60)"
    using monoD [OF m, of 0 "1 / 60"] z by simp
  then have "fl (MonotonicallyIncreasingTime fl p w')
      \<le> fl (MonotonicallyIncreasingTime fl p w' + fl (1 / 60))"
    by (intro monoD [OF m]) simp
  then have "MonotonicallyIncreasingTime fl p w'
      \<le> fl (MonotonicallyIncreasingTime fl p w' + fl (1 / 60))"
    by (simp add: MonotonicallyIncreasingTime_rounded [OF assms(1)])
  ultimately have "MonotonicallyIncreasingTime fl p w
      \<le> fl (MonotonicallyIncreasingTime fl p w' + fl (1 / 60))"
    by linarith
  moreover have "CallIdleOnForegroundThread p (Some i) task w =
           Inr (w\<lparr>js_thread := js_thread w @ [(scheduler p, G_PRIORITY_DEFAULT,
                  Job_HandleIdleTaskRequest
                    \<lparr>req_platform = p, req_isolate = Some i, req_task = task\<rparr>)]\<rparr>)"
    using assms(2)
    by (simp add: CallIdleOnForegroundThread_def gum_script_scheduler_push_job_on_js_thread_def)
  ultimately show ?thesis
    by (simp add: HandleIdleTaskRequest_Some events_since_def)
qed

theorem idle_deadline_computed_at_execution_witness:
  "CallIdleOnForegroundThread sample_platform (Some 3) 9 sample_running =
     Inr (sample_running\<lparr>js_thread := [(1, 0, Job_HandleIdleTaskRequest
            \<lparr>req_platform = sample_platform, req_isolate = Some 3, req_task = 9\<rparr>)]\<rparr>)
   \<and> (case run_job exact (Job_HandleIdleTaskRequest
            \<lparr>req_platform = sample_platform, req_isolate = Some 3, req_task = 9\<rparr>)
            (sample_running\<lparr>clock := 21000\<rparr>) of
         Inl f \<Rightarrow> False
       | Inr w'' \<Rightarrow> idle_deadlines (trace w'') = [(9, 20 / 1000 + 1 / 60)])
   \<and> MonotonicallyIncreasingTime exact sample_platform sample_running \<le> 20 / 1000 + 1 / 60"
proof -
  have h: "rounding exact" "\<not> disposing sample_platform"
    "sint (clock sample_running) \<le> sint (clock (sample_running\<lparr>clock := 21000\<rparr>))"
    "- (2 ^ 63) \<le> sint (clock sample_running) - sint (start_time sample_platform)"
    "sint (clock (sample_running\<lparr>clock := 21000\<rparr>)) - sint (start_time sample_platform) < 2 ^ 63"
    by (simp_all add: sample_running_def sample_platform_def exact_def rounding_def mono_def)
  show ?thesis
    using idle_deadline_computed_at_execution [OF h, of 3 9]
    by (simp add: G_PRIORITY_DEFAULT_def sample_running_def sample_platform_def exact_def
        MonotonicallyIncreasingTime_def g_get_monotonic_time_def signed_divide_int_def
        events_since_def HandleIdleTaskRequest_def delete_request_def Let_def)
qed

section \<open>The handlers\<close>

text \<open>
  C8. HandleTaskRequest runs the task of the request it is given exactly once and then
  deletes the request, which deletes the task, exactly once: with an isolate, between
  taking and releasing the lock of that isolate; without one, with no lock. It leaves the
  queues and the timers as they were, so the request is not submitted again. The delayed
  handler is the same and reports FALSE. The idle handler, given a request with an
  isolate, does the same with the idle task and its deadline.
\<close>

theorem handlers_run_task_once_then_free_request:
  "events_since w (HandleTaskRequest r w) =
     (case req_isolate r of
        None \<Rightarrow> [Task_Run (req_task r), Delete_task (req_task r), Delete_request r]
      | Some i \<Rightarrow> [Enter Locker i, Enter Isolate_Scope i, Enter HandleScope i,
                   Task_Run (req_task r), Delete_task (req_task r), Delete_request r,
                   Leave HandleScope i, Leave Isolate_Scope i, Leave Locker i])
   \<and> count_list (events_since w (HandleTaskRequest r w)) (Task_Run (req_task r)) = 1
   \<and> count_list (events_since w (HandleTaskRequest r w)) (Delete_task (req_task r)) = 1
   \<and> count_list (events_since w (HandleTaskRequest r w)) (Delete_request r) = 1
   \<and> thread_pool (HandleTaskRequest r w) = thread_pool w
   \<and> js_thread (HandleTaskRequest r w) = js_thread w
   \<and> sources (HandleTaskRequest r w) = sources w
   \<and> HandleDelayedTaskRequest r w = (False, HandleTaskRequest r w)
   \<and> (req_isolate r = Some i \<longrightarrow>
        HandleIdleTaskRequest fl r w =
          Inr (w\<lparr>trace := trace w @
            [Enter Locker i, Enter Isolate_Scope i, Enter HandleScope i,
             IdleTask_Run (req_task r)
               (fl (MonotonicallyIncreasingTime fl (req_platform r) w + fl (1 / 60))),
             Delete_task (req_task r), Delete_request r,
             Leave HandleScope i, Leave Isolate_Scope i, Leave Locker i]\<rparr>))"
  by (cases "req_isolate r")
     (simp_all add: events_since_def HandleTaskRequest_trace HandleDelayedTaskRequest_def
        HandleIdleTaskRequest_Some)

theorem handlers_run_task_once_then_free_request_witness:
  "trace (HandleTaskRequest \<lparr>req_platform = sample_platform, req_isolate = Some 3, req_task = 7\<rparr>
      sample_running) =
     [Enter Locker 3, Enter Isolate_Scope 3, Enter HandleScope 3, Task_Run 7, Delete_task 7,
      Delete_request \<lparr>req_platform = sample_platform, req_isolate = Some 3, req_task = 7\<rparr>,
      Leave HandleScope 3, Leave Isolate_Scope 3, Leave Locker 3]
   \<and> trace (HandleTaskRequest \<lparr>req_platform = sample_platform, req_isolate = None, req_task = 7\<rparr>
      sample_running) =
     [Task_Run 7, Delete_task 7,
      Delete_request \<lparr>req_platform = sample_platform, req_isolate = None, req_task = 7\<rparr>]
   \<and> HandleIdleTaskRequest exact
        \<lparr>req_platform = sample_platform, req_isolate = Some 3, req_task = 9\<rparr> sample_running =
      Inr (sample_running\<lparr>trace :=
        [Enter Locker 3, Enter Isolate_Scope 3, Enter HandleScope 3,
         IdleTask_Run 9 (2 / 1000 + 1 / 60), Delete_task 9,
         Delete_request \<lparr>req_platform = sample_platform, req_isolate = Some 3, req_task = 9\<rparr>,
         Leave HandleScope 3, Leave Isolate_Scope 3, Leave Locker 3]\<rparr>)"
  using handlers_run_task_once_then_free_request
          [of sample_running "\<lparr>req_platform = sample_platform, req_isolate = Some 3, req_task = 7\<rparr>"
              3 exact]
        handlers_run_task_once_then_free_request
          [of sample_running "\<lparr>req_platform = sample_platform, req_isolate = None, req_task = 7\<rparr>"
              3 exact]
        handlers_run_task_once_then_free_request
          [of sample_running "\<lparr>req_platform = sample_platform, req_isolate = Some 3, req_task = 9\<rparr>"
              3 exact]
  by (simp add: events_since_def sample_running_def sample_platform_def exact_def
      MonotonicallyIncreasingTime_def g_get_monotonic_time_def signed_divide_int_def)

section \<open>Delayed dispatch\<close>

text \<open>
  C7. With \<open>disposing\<close> clear and a delay that is not negative and whose milliseconds fit a
  guint, delayed foreground dispatch leaves one new timer source attached to the event loop
  of the script thread, with the delayed handler and the request as its callback and an
  interval of the whole milliseconds of \<open>delay_in_seconds * 1000\<close>. When that timer
  fires, the handler runs the task once and reports FALSE; the source is then detached and
  gone, and firing it again does nothing.
\<close>

theorem delayed_dispatch_one_shot_timer:
  assumes "rounding fl" and "\<not> disposing p" and "0 \<le> delay" and "fl (delay * 1000) < 2 ^ 32"
    and "sources w' (next_handle w) = Some (scheduled_timer fl p for_isolate task delay)"
  shows "CallDelayedOnForegroundThread fl p for_isolate task delay w =
           Inr (w\<lparr>next_handle := Suc (next_handle w),
                  sources := (sources w)(next_handle w \<mapsto>
                     scheduled_timer fl p for_isolate task delay)\<rparr>)
       \<and> unat (source_interval (scheduled_timer fl p for_isolate task delay))
           = nat \<lfloor>fl (delay * 1000)\<rfloor>
       \<and> fst (HandleDelayedTaskRequest
                \<lparr>req_platform = p, req_isolate = for_isolate, req_task = task\<rparr> w') = False
       \<and> timeout_dispatch (next_handle w) w' =
           (HandleTaskRequest \<lparr>req_platform = p, req_isolate = for_isolate, req_task = task\<rparr> w')
             \<lparr>sources := (sources w')(next_handle w := None)\<rparr>
       \<and> count_list (events_since w' (timeout_dispatch (next_handle w) w')) (Task_Run task) = 1
       \<and> timeout_dispatch (next_handle w) (timeout_dispatch (next_handle w) w') =
           timeout_dispatch (next_handle w) w'"
proof -
  let ?r = "\<lparr>req_platform = p, req_isolate = for_isolate, req_task = task\<rparr>"
  have m: "mono fl" and z: "fl 0 = 0"
    using assms(1) by (simp_all add: rounding_def)
  have nn: "0 \<le> fl (delay * 1000)"
    using monoD [OF m, of 0 "delay * 1000"] z assms(3) by simp
  have d: "timeout_dispatch (next_handle w) w' =
           (HandleTaskRequest ?r w')\<lparr>sources := (sources w')(next_handle w := None)\<rparr>"
    using assms(5) by (rule timeout_dispatch_one_shot) (simp_all add: scheduled_timer_def)
  have "events_since w' (timeout_dispatch (next_handle w) w') =
          events_since w' (HandleTaskRequest ?r w')"
    unfolding d by (simp add: events_since_def)
  then have c: "count_list (events_since w' (timeout_dispatch (next_handle w) w'))
      (Task_Run task) = 1"
    by (cases for_isolate) (simp_all add: events_since_def HandleTaskRequest_trace)
  have again: "timeout_dispatch (next_handle w) (timeout_dispatch (next_handle w) w') =
           timeout_dispatch (next_handle w) w'"
    by (rule timeout_dispatch_detached) (simp add: d)
  have u: "unat (source_interval (scheduled_timer fl p for_isolate task delay))
      = nat \<lfloor>fl (delay * 1000)\<rfloor>"
    using interval_whole_milliseconds [OF nn assms(4)] by (simp add: scheduled_timer_def)
  show ?thesis
    using CallDelayedOnForegroundThread_eq [where fl = fl and d = delay, OF assms(2) nn assms(4)]
      d c again u
    by (simp add: HandleDelayedTaskRequest_def)
qed

theorem delayed_dispatch_one_shot_timer_witness:
  "CallDelayedOnForegroundThread exact sample_platform (Some 3) 7 (1 / 20) sample_running =
     Inr sample_scheduled
   \<and> unat (source_interval (scheduled_timer exact sample_platform (Some 3) 7 (1 / 20))) = 50
   \<and> trace (timeout_dispatch 6 sample_scheduled) =
       [Enter Locker 3, Enter Isolate_Scope 3, Enter HandleScope 3, Task_Run 7, Delete_task 7,
        Delete_request \<lparr>req_platform = sample_platform, req_isolate = Some 3, req_task = 7\<rparr>,
        Leave HandleScope 3, Leave Isolate_Scope 3, Leave Locker 3]
   \<and> sources (timeout_dispatch 6 sample_scheduled) 6 = None
   \<and> timeout_dispatch 6 (timeout_dispatch 6 sample_scheduled) = timeout_dispatch 6 sample_scheduled"
proof -
  have h: "rounding exact" "\<not> disposing sample_platform" "(0::real) \<le> 1 / 20"
    "exact (1 / 20 * 1000) < 2 ^ 32"
    "sources sample_scheduled (next_handle sample_running) =
       Some (scheduled_timer exact sample_platform (Some 3) 7 (1 / 20))"
    by (simp_all add: sample_running_def sample_platform_def sample_scheduled_def exact_def
        rounding_def mono_def)
  have n: "next_handle sample_running = 6"
    by (simp add: sample_running_def)
  have s: "sample_running\<lparr>next_handle := Suc 6,
      sources := (sources sample_running)(6 \<mapsto>
        scheduled_timer exact sample_platform (Some 3) 7 (1 / 20))\<rparr> = sample_scheduled"
    by (simp add: sample_running_def sample_scheduled_def)
  have e: "nat \<lfloor>exact (1 / 20 * 1000)\<rfloor> = 50"
    by (simp add: exact_def)
  have g: "sources (HandleTaskRequest
      \<lparr>req_platform = sample_platform, req_isolate = Some 3, req_task = 7\<rparr> sample_scheduled
      \<lparr>sources := (sources sample_scheduled)(6 := None)\<rparr>) 6 = None"
    by simp
  have t: "trace (HandleTaskRequest
      \<lparr>req_platform = sample_platform, req_isolate = Some 3, req_task = 7\<rparr> sample_scheduled) =
       [Enter Locker 3, Enter Isolate_Scope 3, Enter HandleScope 3, Task_Run 7, Delete_task 7,
        Delete_request \<lparr>req_platform = sample_platform, req_isolate = Some 3, req_task = 7\<rparr>,
        Leave HandleScope 3, Leave Isolate_Scope 3, Leave Locker 3]"
    by (simp add: HandleTaskRequest_trace sample_scheduled_def)
  show ?thesis
    using delayed_dispatch_one_shot_timer [OF h] unfolding n s e
    by (auto simp: t g simp del: One_nat_def)
qed

section \<open>Construction\<close>

text \<open>
  C9. The constructor creates the scheduler and the buffer allocator, initialises the
  engine, creates one isolate with that allocator, installs the fatal error handler on it
  and, inside one scope of the isolate's lock that is left again before the constructor
  returns, compiles the runtime bundle and the debug bundle. In the platform it returns,
  both of these slots are filled, the two lazy slots are empty and \<open>disposing\<close> is clear.
\<close>

theorem construction_initialises_platform:
  "GumV8Platform_new elapsed w =
     (\<lparr>disposing = False, objc_bundle = None, java_bundle = None,
       scheduler = next_handle w, start_time = clock w,
       array_buffer_allocator = next_handle w + 1, isolate = next_handle w + 2,
       runtime_bundle = Some (next_handle w + 3), debug_bundle = Some (next_handle w + 4)\<rparr>,
      w\<lparr>clock := clock w + elapsed, next_handle := next_handle w + 5,
        trace := trace w @
          [Gum_script_scheduler_new (next_handle w),
           New_GumArrayBufferAllocator (next_handle w + 1),
           V8_InitializePlatform, V8_Initialize,
           Isolate_New (next_handle w + 1) (next_handle w + 2),
           SetFatalErrorHandler (next_handle w + 2),
           Enter Locker (next_handle w + 2), Enter Isolate_Scope (next_handle w + 2),
           Enter HandleScope (next_handle w + 2), Context_New (next_handle w + 2),
           Enter Context_Scope (next_handle w + 2),
           Gum_v8_bundle_new (next_handle w + 2) gumjs_runtime_modules (next_handle w + 3),
           Gum_v8_bundle_new (next_handle w + 2) gumjs_debug_modules (next_handle w + 4),
           Leave Context_Scope (next_handle w + 2), Leave HandleScope (next_handle w + 2),
           Leave Isolate_Scope (next_handle w + 2), Leave Locker (next_handle w + 2)]\<rparr>)
   \<and> runtime_bundle (fst (GumV8Platform_new elapsed w)) \<noteq> None
   \<and> debug_bundle (fst (GumV8Platform_new elapsed w)) \<noteq> None
   \<and> compiled gumjs_runtime_modules (events_since w (snd (GumV8Platform_new elapsed w)))
       = slot (runtime_bundle (fst (GumV8Platform_new elapsed w)))
   \<and> compiled gumjs_debug_modules (events_since w (snd (GumV8Platform_new elapsed w)))
       = slot (debug_bundle (fst (GumV8Platform_new elapsed w)))
   \<and> bundles_under_lock [] (events_since w (snd (GumV8Platform_new elapsed w)))
   \<and> held_after [] (events_since w (snd (GumV8Platform_new elapsed w))) = []"
  by (simp add: GumV8Platform_new_eq events_since_def)

theorem construction_initialises_platform_witness:
  "GumV8Platform_new 2500 sample_world =
     (sample_platform,
      sample_world\<lparr>clock := 3500, next_handle := 6,
        trace :=
          [Gum_script_scheduler_new 1, New_GumArrayBufferAllocator 2,
           V8_InitializePlatform, V8_Initialize, Isolate_New 2 3, SetFatalErrorHandler 3,
           Enter Locker 3, Enter Isolate_Scope 3, Enter HandleScope 3, Context_New 3,
           Enter Context_Scope 3,
           Gum_v8_bundle_new 3 gumjs_runtime_modules 4,
           Gum_v8_bundle_new 3 gumjs_debug_modules 5,
           Leave Context_Scope 3, Leave HandleScope 3, Leave Isolate_Scope 3, Leave Locker 3]\<rparr>)"
  using construction_initialises_platform [of 2500 sample_world]
  by (simp add: sample_world_def sample_platform_def)

section \<open>Lazy bundles\<close>

text \<open>
  C6. The objc and java slots are empty after construction. GetObjCBundle (GetJavaBundle)
  on an empty slot compiles the bundle, stores it and returns it; on a filled slot it
  returns the stored bundle and changes nothing, so a second request, at any later time,
  returns the bundle of the first and compiles nothing. Over any life of a platform, the
  bundles compiled from the objc (java) table are exactly what the objc (java) slot holds,
  at most one, and the slot is filled exactly when the getter was called.
\<close>

theorem lazy_bundles_compiled_once:
  "objc_bundle (fst (GumV8Platform_new elapsed w0)) = None
   \<and> java_bundle (fst (GumV8Platform_new elapsed w0)) = None
   \<and> (objc_bundle p = None \<longrightarrow>
        GetObjCBundle p w =
          (Some (next_handle w), p\<lparr>objc_bundle := Some (next_handle w)\<rparr>,
           w\<lparr>next_handle := Suc (next_handle w),
             trace := trace w @
               [Gum_v8_bundle_new (isolate p) gumjs_objc_modules (next_handle w)]\<rparr>))
   \<and> (objc_bundle p \<noteq> None \<longrightarrow> GetObjCBundle p w = (objc_bundle p, p, w))
   \<and> (java_bundle p = None \<longrightarrow>
        GetJavaBundle p w =
          (Some (next_handle w), p\<lparr>java_bundle := Some (next_handle w)\<rparr>,
           w\<lparr>next_handle := Suc (next_handle w),
             trace := trace w @
               [Gum_v8_bundle_new (isolate p) gumjs_java_modules (next_handle w)]\<rparr>))
   \<and> (java_bundle p \<noteq> None \<longrightarrow> GetJavaBundle p w = (java_bundle p, p, w))
   \<and> fst (GetObjCBundle p w) \<noteq> None
   \<and> GetObjCBundle (fst (snd (GetObjCBundle p w))) w' =
       (fst (GetObjCBundle p w), fst (snd (GetObjCBundle p w)), w')
   \<and> fst (GetJavaBundle p w) \<noteq> None
   \<and> GetJavaBundle (fst (snd (GetJavaBundle p w))) w' =
       (fst (GetJavaBundle p w), fst (snd (GetJavaBundle p w)), w')
   \<and> (case run_calls fl cs (fst (GumV8Platform_new elapsed w0)) (snd (GumV8Platform_new elapsed w0)) of
         Inl f \<Rightarrow> True
       | Inr (p', w'') \<Rightarrow>
           compiled gumjs_objc_modules (events_since w0 w'') = slot (objc_bundle p')
           \<and> (objc_bundle p' \<noteq> None \<longleftrightarrow> Call_GetObjCBundle \<in> set cs)
           \<and> compiled gumjs_java_modules (events_since w0 w'') = slot (java_bundle p')
           \<and> (java_bundle p' \<noteq> None \<longleftrightarrow> Call_GetJavaBundle \<in> set cs))"
proof -
  have o: "fst (GetObjCBundle p w) \<noteq> None
      \<and> GetObjCBundle (fst (snd (GetObjCBundle p w))) w' =
       (fst (GetObjCBundle p w), fst (snd (GetObjCBundle p w)), w')"
    by (cases "objc_bundle p") (simp_all add: GetObjCBundle_first GetObjCBundle_cached)
  have j: "fst (GetJavaBundle p w) \<noteq> None
      \<and> GetJavaBundle (fst (snd (GetJavaBundle p w))) w' =
       (fst (GetJavaBundle p w), fst (snd (GetJavaBundle p w)), w')"
    by (cases "java_bundle p") (simp_all add: GetJavaBundle_first GetJavaBundle_cached)
  have n: "objc_bundle (fst (GumV8Platform_new elapsed w0)) = None"
    "java_bundle (fst (GumV8Platform_new elapsed w0)) = None"
    by (simp_all add: GumV8Platform_new_eq)
  have l: "case run_calls fl cs (fst (GumV8Platform_new elapsed w0)) (snd (GumV8Platform_new elapsed w0)) of
         Inl f \<Rightarrow> True
       | Inr (p', w'') \<Rightarrow>
           compiled gumjs_objc_modules (events_since w0 w'') = slot (objc_bundle p')
           \<and> (objc_bundle p' \<noteq> None \<longleftrightarrow> Call_GetObjCBundle \<in> set cs)
           \<and> compiled gumjs_java_modules (events_since w0 w'') = slot (java_bundle p')
           \<and> (java_bundle p' \<noteq> None \<longleftrightarrow> Call_GetJavaBundle \<in> set cs)"
  proof (cases "run_calls fl cs (fst (GumV8Platform_new elapsed w0)) (snd (GumV8Platform_new elapsed w0))")
    case (Inl f)
    then show ?thesis by simp
  next
    case (Inr pw)
    obtain p' w'' where pw: "pw = (p', w'')" by (cases pw)
    note a = run_calls_alive [OF Inr [unfolded pw] alive_GumV8Platform_new]
    then have "alive w0 p' w''" by simp
    then have "compiled gumjs_objc_modules (events_since w0 w'') = slot (objc_bundle p')"
      "compiled gumjs_java_modules (events_since w0 w'') = slot (java_bundle p')"
      unfolding alive_def by simp_all
    then show ?thesis
      using a n by (simp add: Inr pw)
  qed
  have c: "(objc_bundle p \<noteq> None \<longrightarrow> GetObjCBundle p w = (objc_bundle p, p, w))
      \<and> (java_bundle p \<noteq> None \<longrightarrow> GetJavaBundle p w = (java_bundle p, p, w))"
    by (auto simp: GetObjCBundle_cached GetJavaBundle_cached)
  show ?thesis
    using o j n l c
    by (simp add: GetObjCBundle_first GetJavaBundle_first)
qed

theorem lazy_bundles_compiled_once_witness:
  "GetObjCBundle sample_platform sample_running =
     (Some 6, sample_platform\<lparr>objc_bundle := Some 6\<rparr>,
      sample_running\<lparr>next_handle := 7,
        trace := [Gum_v8_bundle_new 3 gumjs_objc_modules 6]\<rparr>)
   \<and> GetObjCBundle (sample_platform\<lparr>objc_bundle := Some 6\<rparr>) sample_running =
     (Some 6, sample_platform\<lparr>objc_bundle := Some 6\<rparr>, sample_running)
   \<and> GetJavaBundle sample_platform sample_running =
     (Some 6, sample_platform\<lparr>java_bundle := Some 6\<rparr>,
      sample_running\<lparr>next_handle := 7,
        trace := [Gum_v8_bundle_new 3 gumjs_java_modules 6]\<rparr>)
   \<and> GetJavaBundle (sample_platform\<lparr>java_bundle := Some 6\<rparr>) sample_running =
     (Some 6, sample_platform\<lparr>java_bundle := Some 6\<rparr>, sample_running)
   \<and> (case run_calls exact [Call_GetObjCBundle, Call_OnBackgroundThread 7 kLongRunningTask,
              Host_run_pool_job 0, Call_GetObjCBundle]
            (fst (GumV8Platform_new 2500 sample_world)) (snd (GumV8Platform_new 2500 sample_world)) of
         Inl f \<Rightarrow> False
       | Inr (p', w'') \<Rightarrow>
           compiled gumjs_objc_modules (trace w'') = [6] \<and> objc_bundle p' = Some 6
           \<and> compiled gumjs_java_modules (trace w'') = [] \<and> java_bundle p' = None)"
proof -
  have r: "run_calls exact [Call_GetObjCBundle, Call_OnBackgroundThread 7 kLongRunningTask,
              Host_run_pool_job 0, Call_GetObjCBundle]
            (fst (GumV8Platform_new 2500 sample_world)) (snd (GumV8Platform_new 2500 sample_world)) =
      Inr (sample_platform\<lparr>objc_bundle := Some 6\<rparr>,
           sample_world\<lparr>clock := 3500, next_handle := 7,
             trace := trace (snd (GumV8Platform_new 2500 sample_world))
             @ [Gum_v8_bundle_new 3 gumjs_objc_modules 6, Task_Run 7, Delete_task 7,
                Delete_request \<lparr>req_platform = sample_platform\<lparr>objc_bundle := Some 6\<rparr>,
                   req_isolate = None, req_task = 7\<rparr>]\<rparr>)"
    by (simp add: GumV8Platform_new_eq sample_world_def sample_platform_def GetObjCBundle_def
        gum_v8_bundle_new_eq CallOnBackgroundThread_def remove_nth_def with_platform_def
        gum_script_scheduler_push_job_on_thread_pool_def HandleTaskRequest_def
        delete_request_def emit_def Let_def)
  show ?thesis
    using lazy_bundles_compiled_once [where elapsed = 2500 and ?w0.0 = sample_world and p = sample_platform
            and w = sample_running and ?w' = sample_running and fl = exact
            and cs = "[Call_GetObjCBundle, Call_OnBackgroundThread 7 kLongRunningTask,
              Host_run_pool_job 0, Call_GetObjCBundle]"]
          lazy_bundles_compiled_once [where elapsed = 2500 and ?w0.0 = sample_world
            and p = "sample_platform\<lparr>objc_bundle := Some 6\<rparr>"
            and w = sample_running and ?w' = sample_running and fl = exact and cs = "[]"]
          lazy_bundles_compiled_once [where elapsed = 2500 and ?w0.0 = sample_world
            and p = "sample_platform\<lparr>java_bundle := Some 6\<rparr>"
            and w = sample_running and ?w' = sample_running and fl = exact and cs = "[]"]
    unfolding r
    by (simp add: GumV8Platform_new_eq sample_world_def sample_platform_def sample_running_def
        events_since_def)
qed

section \<open>Teardown\<close>

text \<open>
  C5. The destructor first stores true in \<open>disposing\<close>. Then, holding the lock of the
  isolate, it destroys the objc bundle and the java bundle, each only when its slot is not
  null, and the debug bundle and the runtime bundle whatever their slots hold. After
  leaving the lock it disposes the isolate and the engine, and last releases the scheduler
  and deletes the buffer allocator. At the end of any life of a platform, the bundles the
  destructor destroys are exactly the bundles compiled in that life, each once.
\<close>

theorem teardown_order_and_bundle_release:
  "events_since w (snd (GumV8Platform_delete p w)) =
     [Store_disposing True, Enter Locker (isolate p), Enter Isolate_Scope (isolate p),
      Enter HandleScope (isolate p)]
     @ map (\<lambda>b. Gum_v8_bundle_free (Some b)) (slot (objc_bundle p))
     @ map (\<lambda>b. Gum_v8_bundle_free (Some b)) (slot (java_bundle p))
     @ [Gum_v8_bundle_free (debug_bundle p), Gum_v8_bundle_free (runtime_bundle p),
        Leave HandleScope (isolate p), Leave Isolate_Scope (isolate p), Leave Locker (isolate p),
        Isolate_Dispose (isolate p), V8_Dispose, V8_ShutdownPlatform,
        G_object_unref (scheduler p), Delete_allocator (array_buffer_allocator p)]
   \<and> disposing (fst (GumV8Platform_delete p w))
   \<and> bundles_under_lock [] (events_since w (snd (GumV8Platform_delete p w)))
   \<and> (case run_calls fl cs (fst (GumV8Platform_new elapsed w0)) (snd (GumV8Platform_new elapsed w0)) of
         Inl f \<Rightarrow> True
       | Inr (p', w') \<Rightarrow>
           distinct (freed (events_since w0 (snd (GumV8Platform_delete p' w'))))
           \<and> set (freed (events_since w0 (snd (GumV8Platform_delete p' w')))) =
               Some ` set (created (events_since w0 (snd (GumV8Platform_delete p' w')))))"
proof -
  have e: "events_since w (snd (GumV8Platform_delete p w)) =
     [Store_disposing True, Enter Locker (isolate p), Enter Isolate_Scope (isolate p),
      Enter HandleScope (isolate p)]
     @ map (\<lambda>b. Gum_v8_bundle_free (Some b)) (slot (objc_bundle p))
     @ map (\<lambda>b. Gum_v8_bundle_free (Some b)) (slot (java_bundle p))
     @ [Gum_v8_bundle_free (debug_bundle p), Gum_v8_bundle_free (runtime_bundle p),
        Leave HandleScope (isolate p), Leave Isolate_Scope (isolate p), Leave Locker (isolate p),
        Isolate_Dispose (isolate p), V8_Dispose, V8_ShutdownPlatform,
        G_object_unref (scheduler p), Delete_allocator (array_buffer_allocator p)]"
    using GumV8Platform_delete_trace by (rule events_since_append)
  have u: "bundles_under_lock [] (events_since w (snd (GumV8Platform_delete p w)))"
    unfolding e by (cases "objc_bundle p"; cases "java_bundle p") simp_all
  have d: "disposing (fst (GumV8Platform_delete p w))"
    by (simp add: GumV8Platform_delete_def Let_def)
  have l: "case run_calls fl cs (fst (GumV8Platform_new elapsed w0)) (snd (GumV8Platform_new elapsed w0)) of
         Inl f \<Rightarrow> True
       | Inr (p', w') \<Rightarrow>
           distinct (freed (events_since w0 (snd (GumV8Platform_delete p' w'))))
           \<and> set (freed (events_since w0 (snd (GumV8Platform_delete p' w')))) =
               Some ` set (created (events_since w0 (snd (GumV8Platform_delete p' w'))))"
  proof (cases "run_calls fl cs (fst (GumV8Platform_new elapsed w0)) (snd (GumV8Platform_new elapsed w0))")
    case (Inl f)
    then show ?thesis by simp
  next
    case (Inr pw)
    obtain p' w' where pw: "pw = (p', w')" by (cases pw)
    have "alive w0 p' w'"
      using run_calls_alive [OF Inr [unfolded pw] alive_GumV8Platform_new] by simp
    then show ?thesis
      using teardown_frees_what_was_compiled [of w0 p' w'] by (simp add: Inr pw)
  qed
  show ?thesis
    using e u d l by blast
qed

theorem teardown_order_and_bundle_release_witness:
  "trace (snd (GumV8Platform_delete (sample_platform\<lparr>objc_bundle := Some 6\<rparr>) sample_running)) =
     [Store_disposing True, Enter Locker 3, Enter Isolate_Scope 3, Enter HandleScope 3,
      Gum_v8_bundle_free (Some 6), Gum_v8_bundle_free (Some 5), Gum_v8_bundle_free (Some 4),
      Leave HandleScope 3, Leave Isolate_Scope 3, Leave Locker 3, Isolate_Dispose 3,
      V8_Dispose, V8_ShutdownPlatform, G_object_unref 1, Delete_allocator 2]
   \<and> (case run_calls exact [Call_GetJavaBundle, Call_OnForegroundThread (Some 3) 7,
              Host_run_js_job 0]
            (fst (GumV8Platform_new 2500 sample_world)) (snd (GumV8Platform_new 2500 sample_world)) of
         Inl f \<Rightarrow> False
       | Inr (p', w') \<Rightarrow>
           freed (trace (snd (GumV8Platform_delete p' w'))) = [Some 6, Some 5, Some 4]
           \<and> created (trace (snd (GumV8Platform_delete p' w'))) = [4, 5, 6])"
proof -
  have r: "run_calls exact [Call_GetJavaBundle, Call_OnForegroundThread (Some 3) 7,
              Host_run_js_job 0]
            (fst (GumV8Platform_new 2500 sample_world)) (snd (GumV8Platform_new 2500 sample_world)) =
      Inr (sample_platform\<lparr>java_bundle := Some 6\<rparr>,
           sample_world\<lparr>clock := 3500, next_handle := 7,
             trace := trace (snd (GumV8Platform_new 2500 sample_world))
             @ [Gum_v8_bundle_new 3 gumjs_java_modules 6,
                Enter Locker 3, Enter Isolate_Scope 3, Enter HandleScope 3,
                Task_Run 7, Delete_task 7,
                Delete_request \<lparr>req_platform = sample_platform\<lparr>java_bundle := Some 6\<rparr>,
                   req_isolate = Some 3, req_task = 7\<rparr>,
                Leave HandleScope 3, Leave Isolate_Scope 3, Leave Locker 3]\<rparr>)"
    by (simp add: GumV8Platform_new_eq sample_world_def sample_platform_def GetJavaBundle_def
        gum_v8_bundle_new_eq CallOnForegroundThread_def remove_nth_def with_platform_def
        gum_script_scheduler_push_job_on_js_thread_def HandleTaskRequest_def
        delete_request_def emit_def Let_def)
  show ?thesis
    using teardown_order_and_bundle_release
            [where w = sample_running and p = "sample_platform\<lparr>objc_bundle := Some 6\<rparr>"
              and fl = exact and elapsed = 2500 and ?w0.0 = sample_world
              and cs = "[Call_GetJavaBundle, Call_OnForegroundThread (Some 3) 7,
                         Host_run_js_job 0]"]
    unfolding r
    by (simp add: GumV8Platform_delete_trace GumV8Platform_new_eq sample_world_def
        sample_platform_def sample_running_def events_since_def)
qed

end
